theory Spec2Isabelle
  imports Main "HOL-Library.Word"
begin

unbundle bit_operations_syntax

section \<open>Backend: responses, exceptions, tracing context\<close>

text \<open>
  A response body is either absent (\<open>Ok()\<close>), a bare string (\<open>Ok(json)\<close>) or an
  anonymous object, written as its fields in declaration order. A field holds a string,
  a number, a timestamp or \<open>null\<close>; the serializer of the framework writes a null
  property as \<open>null\<close>, it does not drop the field.
\<close>

datatype json = JNull | JString string | JNumber int | JTimestamp nat

datatype content = NoContent | Text string | Object "(string \<times> json) list"

record response =
  StatusCode :: nat
  Body :: content

text \<open>Reading a field of a response body; \<open>None\<close> when the body has no such field.\<close>

fun field :: "string \<Rightarrow> response \<Rightarrow> json option" where
  "field k r = (case Body r of Object fs \<Rightarrow> map_of fs k | _ \<Rightarrow> None)"

text \<open>
  A .NET exception, as far as the handlers read it: \<open>GetType().FullName\<close>,
  \<open>GetType().Name\<close>, \<open>Message\<close> and the nullable \<open>StackTrace\<close>.
\<close>

record exn =
  TypeFullName :: string
  TypeName :: string
  Message :: string
  StackTrace :: "string option"

text \<open>
  Throwing fills in the stack trace. The runtime's text (files, line numbers) is
  abbreviated to the frame of the throwing method.
\<close>

definition throw :: "string \<Rightarrow> exn \<Rightarrow> exn" where
  "throw method e = e\<lparr>StackTrace := Some (''   at '' @ method)\<rparr>"

datatype ActivityStatusCode = Unset | Ok | Error

datatype tag_value = TString string | TInt int

record ActivityEvent =
  EventName :: string
  EventTags :: "(string \<times> tag_value) list"

record Activity =
  OperationName :: string
  TraceId :: "128 word"
  Status :: ActivityStatusCode
  StatusDescription :: "string option"
  Events :: "ActivityEvent list"
  Tags :: "(string \<times> tag_value) list"

datatype LogLevel = Information | Warning | LogError

record log_entry =
  Level :: LogLevel
  Template :: string
  Args :: "tag_value list"
  Exception :: "exn option"

text \<open>
  The part of the process a request handler reads and writes:
  \<^item> \<open>Current\<close>: \<open>Activity.Current\<close> and its ancestors, innermost first; empty when
    \<open>Activity.Current\<close> is null;
  \<^item> \<open>listening\<close>: whether a listener samples the activities of the source
    \<open>PathfinderApi\<close>, so that \<open>StartActivity\<close> returns an activity and not null;
  \<^item> \<open>rootId\<close>: the trace id a new root activity receives;
  \<^item> \<open>stopped\<close>: the activities disposed so far;
  \<^item> \<open>log\<close>: the entries written to the logger;
  \<^item> \<open>utcNow\<close>: the reading of \<open>DateTime.UtcNow\<close>;
  \<^item> \<open>waited\<close>: the milliseconds spent in \<open>Task.Delay\<close>;
  \<^item> \<open>live\<close>, \<open>peak\<close>: the bytes of the arrays the handler holds, now and at most.
\<close>

record world =
  Current :: "Activity list"
  listening :: bool
  rootId :: "128 word"
  stopped :: "Activity list"
  log :: "log_entry list"
  utcNow :: nat
  waited :: nat
  live :: nat
  peak :: nat

text \<open>\<open>ActivityTraceId.ToString()\<close>: the 16 bytes as 32 lower-case hex digits.\<close>

definition hexdigit :: "nat \<Rightarrow> char" where
  "hexdigit n = ''0123456789abcdef'' ! (n mod 16)"

definition TraceId_ToString :: "128 word \<Rightarrow> string" where
  "TraceId_ToString t = map (\<lambda>i. hexdigit (unat (drop_bit (4 * i) t))) (rev [0..<32])"

text \<open>
  \<open>ActivitySource.StartActivity(name)\<close>: null without a sampling listener; otherwise
  a new activity that becomes \<open>Activity.Current\<close>, in the trace of its parent when
  there is one. The boolean returned says whether the result is non-null.
\<close>

definition new_activity :: "string \<Rightarrow> 128 word \<Rightarrow> Activity" where
  "new_activity name t =
     \<lparr>OperationName = name, TraceId = t, Status = Unset, StatusDescription = None,
      Events = [], Tags = []\<rparr>"

definition StartActivity :: "string \<Rightarrow> world \<Rightarrow> bool \<times> world" where
  "StartActivity name w =
     (if listening w
      then (True, w\<lparr>Current :=
              new_activity name (case Current w of [] \<Rightarrow> rootId w | p # _ \<Rightarrow> TraceId p)
              # Current w\<rparr>)
      else (False, w))"

text \<open>\<open>activity?.M(...)\<close> on the handler's own activity: skipped when it is null.\<close>

definition on_activity :: "bool \<Rightarrow> (Activity \<Rightarrow> Activity) \<Rightarrow> world \<Rightarrow> world" where
  "on_activity started f w =
     (if started
      then (case Current w of [] \<Rightarrow> w | a # rest \<Rightarrow> w\<lparr>Current := f a # rest\<rparr>)
      else w)"

text \<open>\<open>Activity.Current?.M(...)\<close>, as the middleware calls it.\<close>

definition on_current :: "(Activity \<Rightarrow> Activity) \<Rightarrow> world \<Rightarrow> world" where
  "on_current f w = (case Current w of [] \<Rightarrow> w | a # rest \<Rightarrow> w\<lparr>Current := f a # rest\<rparr>)"

text \<open>The end of a \<open>using var activity\<close> scope: the activity stops and its parent
  is current again.\<close>

definition Dispose :: "bool \<Rightarrow> world \<Rightarrow> world" where
  "Dispose started w =
     (if started
      then (case Current w of [] \<Rightarrow> w
            | a # rest \<Rightarrow> w\<lparr>Current := rest, stopped := stopped w @ [a]\<rparr>)
      else w)"

fun set_tag :: "string \<Rightarrow> tag_value \<Rightarrow> (string \<times> tag_value) list \<Rightarrow> (string \<times> tag_value) list" where
  "set_tag k v [] = [(k, v)]"
| "set_tag k v ((k', v') # ts) = (if k' = k then (k, v) # ts else (k', v') # set_tag k v ts)"

definition SetTag :: "string \<Rightarrow> tag_value \<Rightarrow> Activity \<Rightarrow> Activity" where
  "SetTag k v a = a\<lparr>Tags := set_tag k v (Tags a)\<rparr>"

definition SetStatus :: "ActivityStatusCode \<Rightarrow> string \<Rightarrow> Activity \<Rightarrow> Activity" where
  "SetStatus c d a =
     a\<lparr>Status := c, StatusDescription := (if c = Error then Some d else None)\<rparr>"

definition AddEvent :: "ActivityEvent \<Rightarrow> Activity \<Rightarrow> Activity" where
  "AddEvent e a = a\<lparr>Events := Events a @ [e]\<rparr>"

text \<open>The \<open>exception\<close> event every catch block builds from the caught exception.\<close>

definition exception_event :: "exn \<Rightarrow> ActivityEvent" where
  "exception_event ex =
     \<lparr>EventName = ''exception'',
      EventTags = [(''exception.type'', TString (TypeFullName ex)),
                   (''exception.message'', TString (Message ex)),
                   (''exception.stacktrace'',
                      TString (case StackTrace ex of None \<Rightarrow> [] | Some s \<Rightarrow> s))]\<rparr>"

definition LogWith :: "LogLevel \<Rightarrow> string \<Rightarrow> tag_value list \<Rightarrow> exn option \<Rightarrow> world \<Rightarrow> world" where
  "LogWith l t args e w =
     w\<lparr>log := log w @ [\<lparr>Level = l, Template = t, Args = args, Exception = e\<rparr>]\<rparr>"

definition Log :: "LogLevel \<Rightarrow> string \<Rightarrow> exn option \<Rightarrow> world \<Rightarrow> world" where
  "Log l t e w = LogWith l t [] e w"

text \<open>\<open>Activity.Current?.TraceId.ToString()\<close>.\<close>

definition Current_TraceId :: "world \<Rightarrow> json" where
  "Current_TraceId w =
     (case Current w of [] \<Rightarrow> JNull | a # _ \<Rightarrow> JString (TraceId_ToString (TraceId a)))"

definition StatusCodeResult :: "nat \<Rightarrow> (string \<times> json) list \<Rightarrow> response" where
  "StatusCodeResult c fs = \<lparr>StatusCode = c, Body = Object fs\<rparr>"

section \<open>HealthController\<close>

definition Health_Get :: "world \<Rightarrow> (exn + response) \<times> world" where
  "Health_Get w0 =
     (let (activity, w1) = StartActivity ''HealthCheck'' w0;
          w2 = on_activity activity (SetTag ''health.status'' (TString ''ok'')) w1;
          r = StatusCodeResult 200
                [(''status'', JString ''healthy''),
                 (''timestamp'', JTimestamp (utcNow w2)),
                 (''traceId'', Current_TraceId w2)]
      in (Inr r, Dispose activity w2))"

section \<open>ErrorSimulationController\<close>

text \<open>
  Every action returns the \<open>IActionResult\<close> it builds, or the exception that escapes
  it, and the world it leaves. The \<open>using var activity\<close> of each action is disposed
  on both ways out.
\<close>

definition envelope :: "string \<Rightarrow> string \<Rightarrow> world \<Rightarrow> (string \<times> json) list" where
  "envelope err msg w =
     [(''error'', JString err), (''message'', JString msg), (''traceId'', Current_TraceId w)]"

text \<open>The body shared by the catch blocks: status and event on the action's activity.\<close>

definition record_exception :: "bool \<Rightarrow> exn \<Rightarrow> world \<Rightarrow> world" where
  "record_exception activity ex w =
     on_activity activity (AddEvent (exception_event ex))
       (on_activity activity (SetStatus Error (Message ex)) w)"

subsection \<open>1. Unhandled exception\<close>

definition NullReferenceException :: exn where
  "NullReferenceException =
     \<lparr>TypeFullName = ''System.NullReferenceException'', TypeName = ''NullReferenceException'',
      Message = ''Object reference not set to an instance of an object.'',
      StackTrace = None\<rparr>"

definition UnhandledException :: "world \<Rightarrow> (exn + response) \<times> world" where
  "UnhandledException w0 =
     (let (activity, w1) = StartActivity ''SimulateUnhandledException'' w0;
          w2 = Log Information ''Triggering unhandled NullReferenceException'' None w1
      in (Inl (throw ''PathfinderApi.Controllers.ErrorSimulationController.UnhandledException()''
                 NullReferenceException),
          Dispose activity w2))"

subsection \<open>2. Handled exception\<close>

definition InvalidOperationException :: "string \<Rightarrow> exn" where
  "InvalidOperationException msg =
     \<lparr>TypeFullName = ''System.InvalidOperationException'', TypeName = ''InvalidOperationException'',
      Message = msg, StackTrace = None\<rparr>"

definition HandledException :: "world \<Rightarrow> (exn + response) \<times> world" where
  "HandledException w0 =
     (let (activity, w1) = StartActivity ''SimulateHandledException'' w0;
          ex = throw ''PathfinderApi.Controllers.ErrorSimulationController.HandledException()''
                 (InvalidOperationException ''Simulated handled exception'');
          w2 = record_exception activity ex w1;
          w3 = Log LogError ''Handled exception occurred'' (Some ex) w2;
          r = StatusCodeResult 500 (envelope ''HandledException'' (Message ex) w3)
      in (Inr r, Dispose activity w3))"

subsection \<open>3. SQL / database error\<close>

definition SystemException :: "string \<Rightarrow> exn" where
  "SystemException msg =
     \<lparr>TypeFullName = ''System.Exception'', TypeName = ''Exception'', Message = msg, StackTrace = None\<rparr>"

definition SqlError :: "world \<Rightarrow> (exn + response) \<times> world" where
  "SqlError w0 =
     (let (activity, w1) = StartActivity ''SimulateSqlError'' w0;
          ex = throw ''PathfinderApi.Controllers.ErrorSimulationController.SqlError()''
                 (SystemException
                    (''Database connection failed: Unable to connect to server '' @
                     [CHR 0x27] @ ''db-server:5432'' @ [CHR 0x27] @ ''. Connection refused.''));
          w2 = record_exception activity ex w1;
          w3 = on_activity activity (SetTag ''db.system'' (TString ''postgresql'')) w2;
          w4 = on_activity activity
                 (SetTag ''db.statement'' (TString ''SELECT * FROM users WHERE id = @id'')) w3;
          w5 = Log LogError ''Database error occurred'' (Some ex) w4;
          r = StatusCodeResult 500 (envelope ''DatabaseError'' (Message ex) w5)
      in (Inr r, Dispose activity w5))"

subsection \<open>4. Timeout\<close>

definition Task_Delay :: "nat \<Rightarrow> world \<Rightarrow> world" where
  "Task_Delay ms w = w\<lparr>waited := waited w + ms\<rparr>"

definition Timeout :: "world \<Rightarrow> (exn + response) \<times> world" where
  "Timeout w0 =
     (let (activity, w1) = StartActivity ''SimulateTimeout'' w0;
          w2 = on_activity activity (SetTag ''timeout.duration_ms'' (TInt 30000)) w1;
          w3 = Log Warning ''Starting 30-second timeout simulation'' None w2;
          w4 = Task_Delay 30000 w3;
          r = StatusCodeResult 200 [(''message'', JString ''Completed after timeout delay'')]
      in (Inr r, Dispose activity w4))"

subsection \<open>5. CPU spike\<close>

text \<open>
  The stopwatch is the sequence of its readings: \<open>clock k\<close> is the elapsed time, in
  ticks of 100 ns, at the \<open>k\<close>-th reading since \<open>Stopwatch.StartNew()\<close>.
  \<open>Elapsed.TotalSeconds < 3\<close> compares the ticks divided by \<open>10^7\<close> with 3, which
  holds exactly for less than \<open>30000000\<close> ticks; \<open>ElapsedMilliseconds\<close> is the ticks
  divided by \<open>10000\<close>, rounded down. The loop body only discards a square root.
  The loop ends at the first reading of at least 3 seconds and returns its index; with
  a stopwatch that never gets there it does not return.
\<close>

definition ElapsedMilliseconds :: "(nat \<Rightarrow> nat) \<Rightarrow> nat \<Rightarrow> int" where
  "ElapsedMilliseconds clock k = int (clock k div 10000)"

partial_function (option) busy_wait :: "(nat \<Rightarrow> nat) \<Rightarrow> nat \<Rightarrow> nat option" where
  "busy_wait clock k = (if clock k < 30000000 then busy_wait clock (Suc k) else Some k)"

text \<open>
  After the loop the stopwatch is read once for the tag (only when the activity is not
  null: a null-conditional call does not evaluate its arguments), once for the log and
  once for the response; \<open>k1\<close>, \<open>k2\<close> and \<open>k3\<close> are the indices of these readings.
\<close>

definition CpuSpike :: "(nat \<Rightarrow> nat) \<Rightarrow> world \<Rightarrow> ((exn + response) \<times> world) option" where
  "CpuSpike clock w0 =
     (let (activity, w1) = StartActivity ''SimulateCpuSpike'' w0;
          w2 = on_activity activity (SetTag ''cpu.duration_seconds'' (TInt 3)) w1;
          w3 = Log Warning ''Starting CPU spike simulation (3 seconds)'' None w2
      in case busy_wait clock 0 of
           None \<Rightarrow> None
         | Some k \<Rightarrow>
             (let k1 = Suc k;
                  w4 = on_activity activity
                         (SetTag ''cpu.actual_duration_ms'' (TInt (ElapsedMilliseconds clock k1))) w3;
                  k2 = (if activity then Suc k1 else k1);
                  w5 = LogWith Information ''CPU spike completed after {Duration}ms''
                         [TInt (ElapsedMilliseconds clock k2)] None w4;
                  k3 = Suc k2;
                  r = StatusCodeResult 200
                        [(''message'', JString ''CPU spike simulation completed''),
                         (''durationMs'', JNumber (ElapsedMilliseconds clock k3)),
                         (''traceId'', Current_TraceId w5)]
              in Some (Inr r, Dispose activity w5)))"

subsection \<open>6. Memory spike\<close>

text \<open>
  \<open>data\<close> is the list of the arrays allocated, each by its length in bytes. The
  runtime's refusal to allocate is not part of the model.
\<close>

definition new_bytes :: "nat \<Rightarrow> world \<Rightarrow> world" where
  "new_bytes n w = w\<lparr>live := live w + n, peak := max (peak w) (live w + n)\<rparr>"

function allocate :: "nat \<Rightarrow> nat list \<Rightarrow> world \<Rightarrow> nat list \<times> world" where
  "allocate i data w =
     (if i < 50
      then allocate (i + 1) (data @ [10 * 1024 * 1024]) (new_bytes (10 * 1024 * 1024) w)
      else (data, w))"
  by pat_completeness auto
termination
  by (relation "measure (\<lambda>(i, data, w). 50 - i)") auto

text \<open>\<open>data.Clear(); GC.Collect()\<close>: the arrays of the list are no longer held.\<close>

definition Clear_Collect :: "nat list \<Rightarrow> world \<Rightarrow> world" where
  "Clear_Collect data w = w\<lparr>live := live w - sum_list data\<rparr>"

definition MemorySpike :: "world \<Rightarrow> (exn + response) \<times> world" where
  "MemorySpike w0 =
     (let (activity, w1) = StartActivity ''SimulateMemorySpike'' w0;
          w2 = Log Warning ''Starting memory spike simulation'' None w1;
          (data, w3) = allocate 0 [] w2;
          w4 = on_activity activity
                 (SetTag ''memory.allocated_mb'' (TInt (int (length data) * 10))) w3;
          w5 = LogWith Information ''Allocated {Count}MB''
                 [TInt (int (length data) * 10)] None w4;
          w6 = Clear_Collect data w5;
          r = StatusCodeResult 200
                [(''message'', JString ''Memory spike simulation completed''),
                 (''allocatedMb'', JNumber 500),
                 (''traceId'', Current_TraceId w6)]
      in (Inr r, Dispose activity w6))"

subsection \<open>7. Dependency failure\<close>

text \<open>
  \<open>GetAsync url seconds\<close> stands for the call of the HTTP client with its timeout:
  the exception it throws (connection refused, name not resolved, timeout reached) or
  the status of the response it returns.
\<close>

definition DependencyFailure ::
  "(string \<Rightarrow> nat \<Rightarrow> exn + nat) \<Rightarrow> world \<Rightarrow> (exn + response) \<times> world" where
  "DependencyFailure GetAsync w0 =
     (let (activity, w1) = StartActivity ''SimulateDependencyFailure'' w0;
          w2 = on_activity activity
                 (SetTag ''dependency.url''
                    (TString ''http://unreachable-service.local:9999/api/data'')) w1;
          w3 = Log Warning ''Calling unreachable dependency'' None w2
      in case GetAsync ''http://unreachable-service.local:9999/api/data'' 5 of
           Inr response \<Rightarrow> (Inr \<lparr>StatusCode = 200, Body = NoContent\<rparr>, Dispose activity w3)
         | Inl ex \<Rightarrow>
             (let w4 = record_exception activity ex w3;
                  w5 = Log LogError ''Dependency call failed'' (Some ex) w4;
                  r = StatusCodeResult 502 (envelope ''DependencyFailure'' (Message ex) w5)
              in (Inr r, Dispose activity w5)))"

subsection \<open>8. Serialization error\<close>

text \<open>The helper class of the controller; a reference is an address of the heap.\<close>

record CircularRef =
  Name :: string
  Ref :: "nat option"

type_synonym heap = "nat \<Rightarrow> CircularRef option"

text \<open>
  The library's \<open>JsonSerializer.Serialize\<close> with its default options, on objects of
  this class: it writes the properties in order, follows \<open>Ref\<close>, and gives up with a
  \<open>JsonException\<close> once the nesting is deeper than the maximum depth of 64.
\<close>

definition JsonException :: exn where
  "JsonException =
     \<lparr>TypeFullName = ''System.Text.Json.JsonException'', TypeName = ''JsonException'',
      Message = ''A possible object cycle was detected.'',
      StackTrace = Some ''   at System.Text.Json.JsonSerializer.Serialize()''\<rparr>"

definition quoted :: "string \<Rightarrow> string" where
  "quoted s = [CHR 0x22] @ s @ [CHR 0x22]"

fun write_object :: "nat \<Rightarrow> heap \<Rightarrow> nat \<Rightarrow> exn + string" where
  "write_object 0 h a = Inl JsonException"
| "write_object (Suc d) h a =
     (case h a of
        None \<Rightarrow> Inr ''null''
      | Some obj \<Rightarrow>
          (case (case Ref obj of None \<Rightarrow> Inr ''null'' | Some r \<Rightarrow> write_object d h r) of
             Inl e \<Rightarrow> Inl e
           | Inr s \<Rightarrow>
               Inr (''{'' @ quoted ''Name'' @ '':'' @ quoted (Name obj) @ '','' @
                    quoted ''Ref'' @ '':'' @ s @ ''}'')))"

definition JsonSerializer_Serialize :: "heap \<Rightarrow> nat \<Rightarrow> exn + string" where
  "JsonSerializer_Serialize h a = write_object 64 h a"

text \<open>
  The two objects the action builds: \<open>a\<close> at address 0, \<open>b\<close> at address 1 with
  \<open>Ref = a\<close>, then \<open>a.Ref = b\<close>.
\<close>

definition circular_heap :: heap where
  "circular_heap =
     (let h0 = Map.empty(0 \<mapsto> \<lparr>Name = ''A'', Ref = None\<rparr>);
          h1 = h0(1 \<mapsto> \<lparr>Name = ''B'', Ref = Some 0\<rparr>);
          h2 = h1(0 \<mapsto> (the (h1 0))\<lparr>Ref := Some 1\<rparr>)
      in h2)"

text \<open>The action, with the serializer it calls as a parameter.\<close>

definition SerializationError_with ::
  "(heap \<Rightarrow> nat \<Rightarrow> exn + string) \<Rightarrow> world \<Rightarrow> (exn + response) \<times> world" where
  "SerializationError_with Serialize w0 =
     (let (activity, w1) = StartActivity ''SimulateSerializationError'' w0;
          w2 = Log Warning ''Triggering serialization error with circular reference'' None w1
      in case Serialize circular_heap 0 of
           Inr json \<Rightarrow> (Inr \<lparr>StatusCode = 200, Body = Text json\<rparr>, Dispose activity w2)
         | Inl ex \<Rightarrow>
             (let w3 = record_exception activity ex w2;
                  w4 = Log LogError ''Serialization failed'' (Some ex) w3;
                  r = StatusCodeResult 500 (envelope ''SerializationError'' (Message ex) w4)
              in (Inr r, Dispose activity w4)))"

definition SerializationError :: "world \<Rightarrow> (exn + response) \<times> world" where
  "SerializationError = SerializationError_with JsonSerializer_Serialize"

subsection \<open>9. Auth failure (401)\<close>

definition AuthFailure :: "world \<Rightarrow> (exn + response) \<times> world" where
  "AuthFailure w0 =
     (let (activity, w1) = StartActivity ''SimulateAuthFailure'' w0;
          w2 = on_activity activity (SetTag ''auth.type'' (TString ''Bearer'')) w1;
          w3 = on_activity activity (SetStatus Error ''Unauthorized'') w2;
          w4 = Log Warning ''Simulating authentication failure (401)'' None w3;
          r = StatusCodeResult 401
                (envelope ''Unauthorized'' ''Invalid or missing authentication token'' w4)
      in (Inr r, Dispose activity w4))"

subsection \<open>10. Forbidden (403)\<close>

definition Forbidden :: "world \<Rightarrow> (exn + response) \<times> world" where
  "Forbidden w0 =
     (let (activity, w1) = StartActivity ''SimulateForbidden'' w0;
          w2 = on_activity activity (SetTag ''auth.type'' (TString ''Bearer'')) w1;
          w3 = on_activity activity (SetTag ''auth.required_role'' (TString ''Admin'')) w2;
          w4 = on_activity activity (SetStatus Error ''Forbidden'') w3;
          w5 = Log Warning ''Simulating authorization failure (403)'' None w4;
          r = StatusCodeResult 403
                (envelope ''Forbidden''
                   ''You do not have permission to access this resource. Required role: Admin''
                   w5)
      in (Inr r, Dispose activity w5))"

subsection \<open>11. Slow response\<close>

definition SlowResponse :: "world \<Rightarrow> (exn + response) \<times> world" where
  "SlowResponse w0 =
     (let (activity, w1) = StartActivity ''SimulateSlowResponse'' w0;
          w2 = on_activity activity (SetTag ''delay.duration_ms'' (TInt 5000)) w1;
          w3 = Log Information ''Starting slow response (5-second delay)'' None w2;
          w4 = Task_Delay 5000 w3;
          w5 = Log Information ''Slow response completed'' None w4;
          r = StatusCodeResult 200
                [(''message'', JString ''Slow response completed after 5 seconds''),
                 (''delayMs'', JNumber 5000),
                 (''traceId'', Current_TraceId w5)]
      in (Inr r, Dispose activity w5))"

section \<open>The request pipeline\<close>

text \<open>
  The routes of the two controllers, and what the process around an action provides:
  the stopwatch readings, the HTTP client and the serializer.
\<close>

datatype endpoint =
    GET_health | GET_unhandled_exception | GET_handled_exception | GET_sql_error
  | GET_timeout | GET_cpu_spike | GET_memory_spike | GET_dependency_failure
  | GET_serialization_error | GET_auth_failure | GET_forbidden | GET_slow_response

record env =
  clock :: "nat \<Rightarrow> nat"
  GetAsync :: "string \<Rightarrow> nat \<Rightarrow> exn + nat"
  Serialize :: "heap \<Rightarrow> nat \<Rightarrow> exn + string"

fun Path :: "endpoint \<Rightarrow> string" where
  "Path GET_health = ''/api/health''"
| "Path GET_unhandled_exception = ''/api/errors/unhandled-exception''"
| "Path GET_handled_exception = ''/api/errors/handled-exception''"
| "Path GET_sql_error = ''/api/errors/sql-error''"
| "Path GET_timeout = ''/api/errors/timeout''"
| "Path GET_cpu_spike = ''/api/errors/cpu-spike''"
| "Path GET_memory_spike = ''/api/errors/memory-spike''"
| "Path GET_dependency_failure = ''/api/errors/dependency-failure''"
| "Path GET_serialization_error = ''/api/errors/serialization-error''"
| "Path GET_auth_failure = ''/api/errors/auth-failure''"
| "Path GET_forbidden = ''/api/errors/forbidden''"
| "Path GET_slow_response = ''/api/errors/slow-response''"

text \<open>\<open>MapControllers\<close>: the action of a route. \<open>None\<close>: the action does not return.\<close>

fun controller_action :: "env \<Rightarrow> endpoint \<Rightarrow> world \<Rightarrow> ((exn + response) \<times> world) option" where
  "controller_action e GET_health w = Some (Health_Get w)"
| "controller_action e GET_unhandled_exception w = Some (UnhandledException w)"
| "controller_action e GET_handled_exception w = Some (HandledException w)"
| "controller_action e GET_sql_error w = Some (SqlError w)"
| "controller_action e GET_timeout w = Some (Timeout w)"
| "controller_action e GET_cpu_spike w = CpuSpike (clock e) w"
| "controller_action e GET_memory_spike w = Some (MemorySpike w)"
| "controller_action e GET_dependency_failure w = Some (DependencyFailure (GetAsync e) w)"
| "controller_action e GET_serialization_error w = Some (SerializationError_with (Serialize e) w)"
| "controller_action e GET_auth_failure w = Some (AuthFailure w)"
| "controller_action e GET_forbidden w = Some (Forbidden w)"
| "controller_action e GET_slow_response w = Some (SlowResponse w)"

text \<open>
  The global exception handler of the pipeline (\<open>app.Use\<close>): the response of
  \<open>next\<close> as it is, or, for an exception that escapes \<open>next\<close>, status and event on
  \<open>Activity.Current\<close>, an error entry in the log and the envelope with status 500.
\<close>

definition exception_handler ::
  "string \<Rightarrow> (world \<Rightarrow> ((exn + response) \<times> world) option) \<Rightarrow> world \<Rightarrow> (response \<times> world) option" where
  "exception_handler path next w0 =
     (case next w0 of
        None \<Rightarrow> None
      | Some (Inr r, w1) \<Rightarrow> Some (r, w1)
      | Some (Inl ex, w1) \<Rightarrow>
          (let w2 = on_current (SetStatus Error (Message ex)) w1;
               w3 = on_current (AddEvent (exception_event ex)) w2;
               w4 = LogWith LogError ''Unhandled exception on {Path}'' [TString path] (Some ex) w3;
               r = StatusCodeResult 500 (envelope (TypeName ex) (Message ex) w4)
           in Some (r, w4)))"

definition handle_request :: "env \<Rightarrow> endpoint \<Rightarrow> world \<Rightarrow> (response \<times> world) option" where
  "handle_request e ep w = exception_handler (Path ep) (controller_action e ep) w"

text \<open>The process as it runs: the library's serializer in place of the parameter.\<close>

definition runtime :: "(nat \<Rightarrow> nat) \<Rightarrow> (string \<Rightarrow> nat \<Rightarrow> exn + nat) \<Rightarrow> env" where
  "runtime c g = \<lparr>clock = c, GetAsync = g, Serialize = JsonSerializer_Serialize\<rparr>"

section \<open>Contracts and sample inputs\<close>

text \<open>The names of the fields of a response body, in order.\<close>

fun keys :: "response \<Rightarrow> string list" where
  "keys r = (case Body r of Object fs \<Rightarrow> map fst fs | _ \<Rightarrow> [])"

text \<open>
  The trace id of \<open>Activity.Current\<close> where a body is built: in the middleware it is
  that of the activity around the request, inside an action that of the action's own
  activity when a listener samples it. \<open>render\<close> is the value of the \<open>traceId\<close> field.
\<close>

definition ambient_trace :: "world \<Rightarrow> 128 word option" where
  "ambient_trace w = (case Current w of [] \<Rightarrow> None | a # _ \<Rightarrow> Some (TraceId a))"

definition action_trace :: "world \<Rightarrow> 128 word option" where
  "action_trace w =
     (case Current w of
        [] \<Rightarrow> (if listening w then Some (rootId w) else None)
      | a # _ \<Rightarrow> Some (TraceId a))"

fun render :: "128 word option \<Rightarrow> json" where
  "render None = JNull"
| "render (Some t) = JString (TraceId_ToString t)"

text \<open>
  The endpoints that handle their error in the action, and the status the
  specification documents for each endpoint (its table of operations).
\<close>

definition handled_locally :: "endpoint list" where
  "handled_locally =
     [GET_handled_exception, GET_sql_error, GET_dependency_failure,
      GET_serialization_error, GET_auth_failure, GET_forbidden]"

fun documented_status :: "endpoint \<Rightarrow> nat" where
  "documented_status GET_health = 200"
| "documented_status GET_unhandled_exception = 500"
| "documented_status GET_handled_exception = 500"
| "documented_status GET_sql_error = 500"
| "documented_status GET_timeout = 200"
| "documented_status GET_cpu_spike = 200"
| "documented_status GET_memory_spike = 200"
| "documented_status GET_dependency_failure = 502"
| "documented_status GET_serialization_error = 500"
| "documented_status GET_auth_failure = 401"
| "documented_status GET_forbidden = 403"
| "documented_status GET_slow_response = 200"

text \<open>The \<open>error\<close> value the catch block or the action of an endpoint writes.\<close>

fun error_kind :: "endpoint \<Rightarrow> string" where
  "error_kind GET_handled_exception = ''HandledException''"
| "error_kind GET_sql_error = ''DatabaseError''"
| "error_kind GET_dependency_failure = ''DependencyFailure''"
| "error_kind GET_serialization_error = ''SerializationError''"
| "error_kind GET_auth_failure = ''Unauthorized''"
| "error_kind GET_forbidden = ''Forbidden''"
| "error_kind ep = []"

definition dependency_url :: string where
  "dependency_url = ''http://unreachable-service.local:9999/api/data''"

text \<open>
  Sample inputs: a request inside an activity of the hosting layer with a sampling
  listener, a request with no tracing at all, a stopwatch that advances one second
  per reading, an HTTP client whose connection is refused, and a serializer that
  accepts whatever it is given.
\<close>

definition traced_world :: world where
  "traced_world =
     \<lparr>Current = [new_activity ''GET'' 0x0c3e8e9971ce3da4aef56211b48c07ba], listening = True,
      rootId = 1, stopped = [], log = [], utcNow = 0, waited = 0, live = 0, peak = 0\<rparr>"

definition untraced_world :: world where
  "untraced_world =
     \<lparr>Current = [], listening = False,
      rootId = 1, stopped = [], log = [], utcNow = 0, waited = 0, live = 0, peak = 0\<rparr>"

definition second_clock :: "nat \<Rightarrow> nat" where
  "second_clock k = k * 10000000"

definition HttpRequestException :: exn where
  "HttpRequestException =
     \<lparr>TypeFullName = ''System.Net.Http.HttpRequestException'',
      TypeName = ''HttpRequestException'',
      Message = ''Connection refused (unreachable-service.local:9999)'',
      StackTrace = Some ''   at System.Net.Http.HttpClient.GetAsync()''\<rparr>"

definition refused :: "string \<Rightarrow> nat \<Rightarrow> exn + nat" where
  "refused u seconds = Inl HttpRequestException"

text \<open>An HTTP client to which the downstream address answers, with status 200.\<close>

definition answered :: "string \<Rightarrow> nat \<Rightarrow> exn + nat" where
  "answered u seconds = Inr 200"

definition accepting :: "heap \<Rightarrow> nat \<Rightarrow> exn + string" where
  "accepting h a = Inr ''{}''"

definition sample_env :: env where
  "sample_env = runtime second_clock refused"

section \<open>Frontend: values of the script engine\<close>

text \<open>
  A thrown or rejected value, as far as the handlers look at it: \<open>undefined\<close>,
  \<open>null\<close>, a string, an \<open>Error\<close> with its name and message, or another object
  with the \<open>message\<close> property it may have (a string).
\<close>

datatype js_value =
    JsUndefined | JsNull | JsString string | JsError string string | JsObject "string option"

text \<open>The texts the engine gives to the errors it raises itself.\<close>

record engine =
  TypeError_reading :: "js_value \<Rightarrow> string \<Rightarrow> string"
  SyntaxError_parsing :: "string \<Rightarrow> string"

text \<open>\<open>v.message\<close>: a \<open>TypeError\<close> on \<open>undefined\<close> and \<open>null\<close>.\<close>

fun get_message :: "engine \<Rightarrow> js_value \<Rightarrow> js_value + string option" where
  "get_message en JsUndefined = Inl (JsError ''TypeError'' (TypeError_reading en JsUndefined ''message''))"
| "get_message en JsNull = Inl (JsError ''TypeError'' (TypeError_reading en JsNull ''message''))"
| "get_message en (JsString s) = Inr None"
| "get_message en (JsError n m) = Inr (Some m)"
| "get_message en (JsObject m) = Inr m"

text \<open>\<open>v?.message\<close>: \<open>undefined\<close> on \<open>undefined\<close> and \<open>null\<close>.\<close>

fun get_message_opt :: "js_value \<Rightarrow> string option" where
  "get_message_opt JsUndefined = None"
| "get_message_opt JsNull = None"
| "get_message_opt (JsString s) = None"
| "get_message_opt (JsError n m) = Some m"
| "get_message_opt (JsObject m) = m"

text \<open>\<open>String(v)\<close>.\<close>

fun String :: "js_value \<Rightarrow> string" where
  "String JsUndefined = ''undefined''"
| "String JsNull = ''null''"
| "String (JsString s) = s"
| "String (JsError n m) = (if n = [] then m else if m = [] then n else n @ '': '' @ m)"
| "String (JsObject m) = ''[object Object]''"

text \<open>\<open>a || b\<close> on strings that may be undefined: \<open>a\<close> unless it is undefined or empty.\<close>

fun or_else :: "string option \<Rightarrow> string \<Rightarrow> string" where
  "or_else None b = b"
| "or_else (Some a) b = (if a = [] then b else a)"

fun or_opt :: "string option \<Rightarrow> string option \<Rightarrow> string option" where
  "or_opt None b = b"
| "or_opt (Some a) b = (if a = [] then b else Some a)"

text \<open>A value that may be undefined inside a template literal.\<close>

fun template :: "string option \<Rightarrow> string" where
  "template None = ''undefined''"
| "template (Some a) = a"

definition lower_char :: "char \<Rightarrow> char" where
  "lower_char c =
     (if 65 \<le> (of_char c :: nat) \<and> (of_char c :: nat) \<le> 90
      then char_of ((of_char c :: nat) + 32) else c)"

definition toLowerCase :: "string \<Rightarrow> string" where
  "toLowerCase s = map lower_char s"

section \<open>Frontend: the window, its listeners and the tracer\<close>

record span =
  span_name :: string
  span_status :: "string option"
  span_attributes :: "(string \<times> string) list"
  span_exceptions :: "js_value list"

text \<open>An element as a listener reads it: \<open>tagName\<close>, \<open>src\<close> and \<open>href\<close>.\<close>

record element =
  tagName :: string
  src :: "string option"
  href :: "string option"

datatype event_target = NoTarget | Window | Element element

datatype window_event = PromiseRejectionEvent js_value | ErrorEvent event_target

text \<open>
  The two closures a \<open>GlobalErrorHandler\<close> creates in its constructor; the number is
  the instance they close over. Two closures are the same callback only if they come
  from the same evaluation of the arrow function.
\<close>

datatype listener = rejection_listener nat | error_listener nat

record registration =
  event_type :: string
  callback :: listener
  capture :: bool

text \<open>
  The page outside the component:
  \<^item> \<open>listeners\<close>: the event listeners of \<open>window\<close>, in the order they were added;
  \<^item> \<open>instances\<close>: how many \<open>GlobalErrorHandler\<close> objects were constructed;
  \<^item> \<open>ended\<close>: the spans ended, which the span processor reports;
  \<^item> \<open>unended\<close>: the spans started and never ended;
  \<^item> \<open>timers\<close>: the callbacks \<open>() => { throw error; }\<close> given to \<open>setTimeout\<close>,
    each by the value it throws;
  \<^item> \<open>rejected\<close>: the reasons of the promises rejected with no handler;
  \<^item> \<open>appended\<close>: the elements appended to the document body;
  \<^item> \<open>requests\<close>: the URLs requested through the HTTP client.
\<close>

record browser =
  listeners :: "registration list"
  instances :: nat
  ended :: "span list"
  unended :: "span list"
  timers :: "js_value list"
  rejected :: "js_value list"
  appended :: "element list"
  requests :: "string list"

text \<open>
  \<open>window.addEventListener(type, callback, capture)\<close>: a listener with the same
  type, callback and capture flag as one already in the list is not added again.
\<close>

definition addEventListener :: "string \<Rightarrow> listener \<Rightarrow> bool \<Rightarrow> browser \<Rightarrow> browser" where
  "addEventListener t l c b =
     (let r = \<lparr>event_type = t, callback = l, capture = c\<rparr>
      in if r \<in> set (listeners b) then b else b\<lparr>listeners := listeners b @ [r]\<rparr>)"

definition startSpan :: "string \<Rightarrow> span" where
  "startSpan n = \<lparr>span_name = n, span_status = None, span_attributes = [], span_exceptions = []\<rparr>"

definition span_end :: "span \<Rightarrow> browser \<Rightarrow> browser" where
  "span_end sp b = b\<lparr>ended := ended b @ [sp]\<rparr>"

section \<open>GlobalErrorHandler\<close>

text \<open>The constructor: a new instance, and its two listeners added to the window.\<close>

definition GlobalErrorHandler :: "browser \<Rightarrow> nat \<times> browser" where
  "GlobalErrorHandler b0 =
     (let this = instances b0;
          b1 = b0\<lparr>instances := Suc this\<rparr>;
          b2 = addEventListener ''unhandledrejection'' (rejection_listener this) False b1;
          b3 = addEventListener ''error'' (error_listener this) True b2
      in (this, b3))"

text \<open>The listener for \<open>unhandledrejection\<close>; \<open>reason\<close> is \<open>event.reason\<close>.\<close>

definition on_unhandledrejection :: "js_value \<Rightarrow> browser \<Rightarrow> browser" where
  "on_unhandledrejection reason b =
     (let sp0 = startSpan ''unhandled-promise-rejection'';
          sp1 = sp0\<lparr>span_status := Some (or_else (get_message_opt reason) (String reason))\<rparr>;
          sp2 = (case reason of
                   JsError n m \<Rightarrow> sp1\<lparr>span_exceptions := span_exceptions sp1 @ [reason]\<rparr>
                 | _ \<Rightarrow> sp1)
      in span_end sp2 b)"

text \<open>The listener for \<open>error\<close>, in the capture phase; only \<open>img\<close>, \<open>script\<close> and
  \<open>link\<close> elements pass its test.\<close>

fun on_error :: "event_target \<Rightarrow> browser \<Rightarrow> browser" where
  "on_error (Element el) b =
     (if tagName el = ''IMG'' \<or> tagName el = ''SCRIPT'' \<or> tagName el = ''LINK''
      then (let sp0 = startSpan ''resource-load-failure'';
                sp1 = sp0\<lparr>span_attributes := span_attributes sp0 @
                        [(''resource.type'', toLowerCase (tagName el))]\<rparr>;
                sp2 = sp1\<lparr>span_attributes := span_attributes sp1 @
                        [(''resource.src'', or_else (or_opt (src el) (href el)) ''unknown'')]\<rparr>;
                sp3 = sp2\<lparr>span_status := Some (''Failed to load '' @ toLowerCase (tagName el) @
                        '': '' @ template (or_opt (src el) (href el)))\<rparr>
            in span_end sp3 b)
      else b)"
| "on_error Window b = b"
| "on_error NoTarget b = b"

text \<open>
  Dispatching an event to the listeners of the window. An event whose target is the
  window reaches all of them; the \<open>error\<close> event of an element does not bubble and
  reaches the window in the capture phase only.
\<close>

fun type_of :: "window_event \<Rightarrow> string" where
  "type_of (PromiseRejectionEvent r) = ''unhandledrejection''"
| "type_of (ErrorEvent t) = ''error''"

fun at_window :: "window_event \<Rightarrow> bool" where
  "at_window (PromiseRejectionEvent r) = True"
| "at_window (ErrorEvent t) = (t = Window)"

fun call_listener :: "listener \<Rightarrow> window_event \<Rightarrow> browser \<Rightarrow> browser" where
  "call_listener (rejection_listener this) (PromiseRejectionEvent r) b = on_unhandledrejection r b"
| "call_listener (error_listener this) (ErrorEvent t) b = on_error t b"
| "call_listener l ev b = b"

definition receives :: "registration \<Rightarrow> window_event \<Rightarrow> bool" where
  "receives r ev = (event_type r = type_of ev \<and> (capture r \<or> at_window ev))"

fun deliver :: "registration list \<Rightarrow> window_event \<Rightarrow> browser \<Rightarrow> browser" where
  "deliver [] ev b = b"
| "deliver (r # rs) ev b =
     deliver rs ev (if receives r ev then call_listener (callback r) ev b else b)"

definition dispatchEvent :: "window_event \<Rightarrow> browser \<Rightarrow> browser" where
  "dispatchEvent ev b = deliver (listeners b) ev b"

text \<open>
  \<open>handleError(error)\<close>. The span is started before \<open>error.message\<close> is read, so a
  \<open>TypeError\<close> of that read leaves it unended and leaves the method.
\<close>

definition handleError :: "engine \<Rightarrow> js_value \<Rightarrow> browser \<Rightarrow> (js_value + unit) \<times> browser" where
  "handleError en err b =
     (let sp0 = startSpan ''uncaught-error''
      in case get_message en err of
           Inl type_error \<Rightarrow> (Inl type_error, b\<lparr>unended := unended b @ [sp0]\<rparr>)
         | Inr m \<Rightarrow>
             (let sp1 = sp0\<lparr>span_status := Some (or_else m ''Unknown error'')\<rparr>;
                  sp2 = sp1\<lparr>span_exceptions := span_exceptions sp1 @ [err]\<rparr>;
                  b1 = span_end sp2 b
              in (Inr (), b1\<lparr>timers := timers b1 @ [err]\<rparr>)))"

text \<open>
  The oldest timer runs: its callback throws, nothing catches the value, and the
  browser reports it with an \<open>error\<close> event whose target is the window.
\<close>

definition run_timer :: "browser \<Rightarrow> browser" where
  "run_timer b =
     (case timers b of [] \<Rightarrow> b | e # ts \<Rightarrow> dispatchEvent (ErrorEvent Window) (b\<lparr>timers := ts\<rparr>))"

text \<open>
  What happens on the page, one after the other: a promise is rejected with no
  handler, a resource of an element fails to load, the framework hands an uncaught
  exception to \<open>handleError\<close>, or a timer runs.
\<close>

datatype occurrence =
    UnhandledRejection js_value | ResourceLoadFailure element | UncaughtException js_value
  | TimerRuns

fun occur :: "engine \<Rightarrow> occurrence \<Rightarrow> browser \<Rightarrow> browser" where
  "occur en (UnhandledRejection r) b = dispatchEvent (PromiseRejectionEvent r) b"
| "occur en (ResourceLoadFailure el) b = dispatchEvent (ErrorEvent (Element el)) b"
| "occur en (UncaughtException e) b = snd (handleError en e b)"
| "occur en TimerRuns b = run_timer b"

fun occur_all :: "engine \<Rightarrow> occurrence list \<Rightarrow> browser \<Rightarrow> browser" where
  "occur_all en [] b = b"
| "occur_all en (x # xs) b = occur_all en xs (occur en x b)"

text \<open>A page on which nothing has run yet, and the page after \<open>n\<close> constructions.\<close>

definition new_page :: browser where
  "new_page = \<lparr>listeners = [], instances = 0, ended = [], unended = [], timers = [],
               rejected = [], appended = [], requests = []\<rparr>"

fun constructed :: "nat \<Rightarrow> browser" where
  "constructed 0 = new_page"
| "constructed (Suc n) = snd (GlobalErrorHandler (constructed n))"

definition registered :: "string \<Rightarrow> browser \<Rightarrow> nat" where
  "registered t b = length (filter (\<lambda>r. event_type r = t) (listeners b))"

section \<open>ErrorService: the client-side simulations\<close>

datatype simulation =
    simulateJsException | simulatePromiseRejection | simulateJsonParseError
  | simulateResourceLoadFailure

datatype http_call =
    healthCheck | unhandledException | handledException | sqlError | timeout | cpuSpike
  | memorySpike | dependencyFailure | serializationError | authFailure | forbidden
  | slowResponse | simulateNetworkFailure | simulateCorsFailure

fun simulate :: "engine \<Rightarrow> simulation \<Rightarrow> browser \<Rightarrow> (js_value + unit) \<times> browser" where
  "simulate en simulateJsException b =
     (Inl (JsError ''TypeError'' (TypeError_reading en JsUndefined ''property'')), b)"
| "simulate en simulatePromiseRejection b =
     (Inr (), b\<lparr>rejected := rejected b @
                  [JsError ''Error'' ''Simulated unhandled promise rejection'']\<rparr>)"
| "simulate en simulateJsonParseError b =
     (Inl (JsError ''SyntaxError'' (SyntaxError_parsing en ''{invalid json!!!}'')), b)"
| "simulate en simulateResourceLoadFailure b =
     (Inr (), b\<lparr>appended := appended b @
                  [\<lparr>tagName = ''IMG'', src = Some ''http://localhost:9999/nonexistent-image.png'',
                    href = None\<rparr>]\<rparr>)"

fun url :: "string \<Rightarrow> http_call \<Rightarrow> string" where
  "url API_BASE healthCheck = API_BASE @ ''/health''"
| "url API_BASE unhandledException = API_BASE @ ''/errors/unhandled-exception''"
| "url API_BASE handledException = API_BASE @ ''/errors/handled-exception''"
| "url API_BASE sqlError = API_BASE @ ''/errors/sql-error''"
| "url API_BASE timeout = API_BASE @ ''/errors/timeout''"
| "url API_BASE cpuSpike = API_BASE @ ''/errors/cpu-spike''"
| "url API_BASE memorySpike = API_BASE @ ''/errors/memory-spike''"
| "url API_BASE dependencyFailure = API_BASE @ ''/errors/dependency-failure''"
| "url API_BASE serializationError = API_BASE @ ''/errors/serialization-error''"
| "url API_BASE authFailure = API_BASE @ ''/errors/auth-failure''"
| "url API_BASE forbidden = API_BASE @ ''/errors/forbidden''"
| "url API_BASE slowResponse = API_BASE @ ''/errors/slow-response''"
| "url API_BASE simulateNetworkFailure = ''http://localhost:9999/does-not-exist''"
| "url API_BASE simulateCorsFailure = ''https://www.google.com/''"

section \<open>AppComponent: the client trigger layer\<close>

datatype button_type = client | server

datatype button_status = idle | loading | success | error

text \<open>
  The closure of a button: the runner it calls, with the id and the service method
  written in it. The icon is the list of its code points.
\<close>

datatype action = RunClient string simulation | RunHttp string http_call

record ActionButton =
  id' :: string
  label :: string
  description :: string
  icon :: "nat list"
  type' :: button_type
  status :: button_status
  response :: "string option"
  action :: action

text \<open>\<open>detectChanges\<close> counts the calls of \<open>cdr.detectChanges()\<close>.\<close>

record AppComponent =
  clientActions :: "ActionButton list"
  serverActions :: "ActionButton list"
  detectChanges :: nat

definition startup :: AppComponent where
  "startup =
     \<lparr>clientActions =
     [\<lparr>id' = ''js-exception'', label = ''JS Exception'',
       description = ''TypeError: cannot read property of undefined'',
       icon = [0x1f4a5], type' = client, status = idle, response = None,
       action = RunClient ''js-exception'' simulateJsException\<rparr>,
      \<lparr>id' = ''promise-rejection'', label = ''Promise Rejection'',
       description = ''Unhandled async rejection'',
       icon = [0x26a1], type' = client, status = idle, response = None,
       action = RunClient ''promise-rejection'' simulatePromiseRejection\<rparr>,
      \<lparr>id' = ''network-failure'', label = ''Network Failure'',
       description = ''Connection to unreachable host'',
       icon = [0x1f50c], type' = client, status = idle, response = None,
       action = RunHttp ''network-failure'' simulateNetworkFailure\<rparr>,
      \<lparr>id' = ''cors-failure'', label = ''CORS Failure'',
       description = ''Cross-origin request blocked'',
       icon = [0x1f6ab], type' = client, status = idle, response = None,
       action = RunHttp ''cors-failure'' simulateCorsFailure\<rparr>,
      \<lparr>id' = ''json-parse'', label = ''JSON Parse Error'',
       description = ''Invalid JSON string parsing'',
       icon = [0x1f4c4], type' = client, status = idle, response = None,
       action = RunClient ''json-parse'' simulateJsonParseError\<rparr>,
      \<lparr>id' = ''resource-load'', label = ''Resource Load Failure'',
       description = ''Image from unreachable server'',
       icon = [0x1f5bc, 0xfe0f], type' = client, status = idle, response = None,
       action = RunClient ''resource-load'' simulateResourceLoadFailure\<rparr>],
      serverActions =
     [\<lparr>id' = ''health'', label = ''Health Check'',
       description = ''Verify end-to-end trace (200 OK)'',
       icon = [0x1f49a], type' = server, status = idle, response = None,
       action = RunHttp ''health'' healthCheck\<rparr>,
      \<lparr>id' = ''unhandled'', label = ''Unhandled Exception'',
       description = ''NullReferenceException (500)'',
       icon = [0x1f525], type' = server, status = idle, response = None,
       action = RunHttp ''unhandled'' unhandledException\<rparr>,
      \<lparr>id' = ''handled'', label = ''Handled Exception'',
       description = ''InvalidOperationException (500)'',
       icon = [0x26a0, 0xfe0f], type' = server, status = idle, response = None,
       action = RunHttp ''handled'' handledException\<rparr>,
      \<lparr>id' = ''sql'', label = ''Database Error'',
       description = ''Simulated SQL connection failure'',
       icon = [0x1f5c4, 0xfe0f], type' = server, status = idle, response = None,
       action = RunHttp ''sql'' sqlError\<rparr>,
      \<lparr>id' = ''timeout'', label = ''Timeout'',
       description = ''30-second delay (exceeds client timeout)'',
       icon = [0x23f1, 0xfe0f], type' = server, status = idle, response = None,
       action = RunHttp ''timeout'' timeout\<rparr>,
      \<lparr>id' = ''cpu'', label = ''CPU Spike'',
       description = ''3-second busy loop'',
       icon = [0x1f504], type' = server, status = idle, response = None,
       action = RunHttp ''cpu'' cpuSpike\<rparr>,
      \<lparr>id' = ''memory'', label = ''Memory Spike'',
       description = ''Allocate 500MB temporarily'',
       icon = [0x1f4c8], type' = server, status = idle, response = None,
       action = RunHttp ''memory'' memorySpike\<rparr>,
      \<lparr>id' = ''dependency'', label = ''Dependency Failure'',
       description = ''HTTP call to unreachable service'',
       icon = [0x1f517], type' = server, status = idle, response = None,
       action = RunHttp ''dependency'' dependencyFailure\<rparr>,
      \<lparr>id' = ''serialization'', label = ''Serialization Error'',
       description = ''Circular reference in JSON'',
       icon = [0x1f501], type' = server, status = idle, response = None,
       action = RunHttp ''serialization'' serializationError\<rparr>,
      \<lparr>id' = ''auth'', label = ''Auth Failure (401)'',
       description = ''Missing/invalid token'',
       icon = [0x1f512], type' = server, status = idle, response = None,
       action = RunHttp ''auth'' authFailure\<rparr>,
      \<lparr>id' = ''forbidden'', label = ''Forbidden (403)'',
       description = ''Insufficient permissions'',
       icon = [0x1f6e1, 0xfe0f], type' = server, status = idle, response = None,
       action = RunHttp ''forbidden'' forbidden\<rparr>,
      \<lparr>id' = ''slow'', label = ''Slow Response'',
       description = ''5-second delay then 200 OK'',
       icon = [0x1f40c], type' = server, status = idle, response = None,
       action = RunHttp ''slow'' slowResponse\<rparr>],
      detectChanges = 0\<rparr>"

text \<open>\<open>Array.prototype.find\<close>, by the index of the element found.\<close>

fun find_from :: "('a \<Rightarrow> bool) \<Rightarrow> 'a list \<Rightarrow> nat \<Rightarrow> nat option" where
  "find_from P [] k = None"
| "find_from P (x # xs) k = (if P x then Some k else find_from P xs (Suc k))"

datatype button_ref = ClientButton nat | ServerButton nat

definition findButton :: "string \<Rightarrow> AppComponent \<Rightarrow> button_ref option" where
  "findButton i c =
     (case find_from (\<lambda>a. id' a = i) (clientActions c) 0 of
        Some k \<Rightarrow> Some (ClientButton k)
      | None \<Rightarrow>
          (case find_from (\<lambda>a. id' a = i) (serverActions c) 0 of
             Some k \<Rightarrow> Some (ServerButton k)
           | None \<Rightarrow> None))"

definition setStatus ::
  "string \<Rightarrow> button_status \<Rightarrow> string option \<Rightarrow> AppComponent \<Rightarrow> AppComponent" where
  "setStatus i st resp c =
     (case findButton i c of
        None \<Rightarrow> c
      | Some (ClientButton k) \<Rightarrow>
          c\<lparr>clientActions :=
               (clientActions c)[k := (clientActions c ! k)\<lparr>status := st, response := resp\<rparr>],
            detectChanges := Suc (detectChanges c)\<rparr>
      | Some (ServerButton k) \<Rightarrow>
          c\<lparr>serverActions :=
               (serverActions c)[k := (serverActions c ! k)\<lparr>status := st, response := resp\<rparr>],
            detectChanges := Suc (detectChanges c)\<rparr>)"

text \<open>
  \<open>runClient(id, fn)\<close>; \<open>fn\<close> returns or throws, and changes the page. In the catch
  block \<open>e.message\<close> is read before \<open>setStatus\<close> is called.
\<close>

definition runClient ::
  "engine \<Rightarrow> string \<Rightarrow> (browser \<Rightarrow> (js_value + unit) \<times> browser) \<Rightarrow> AppComponent \<times> browser
     \<Rightarrow> (js_value + unit) \<times> AppComponent \<times> browser" where
  "runClient en i fn cb =
     (let (c0, b0) = cb;
          c1 = setStatus i loading None c0
      in case fn b0 of
           (Inr u, b1) \<Rightarrow>
             (Inr (), setStatus i error (Some ''Exception thrown (check Jaeger)'') c1, b1)
         | (Inl e, b1) \<Rightarrow>
             (case get_message en e of
                Inl type_error \<Rightarrow> (Inl type_error, c1, b1)
              | Inr m \<Rightarrow> (Inl e, setStatus i error m c1, b1)))"

text \<open>
  \<open>runHttp(id, obs)\<close> subscribes, which sends the request; the two callbacks run when
  the request completes. The response is given by the two expressions \<open>next\<close> reads of
  it, \<open>res?.traceId\<close> and \<open>JSON.stringify(res)\<close>; the error by the three \<open>error\<close>
  reads, \<open>err?.error?.message\<close>, \<open>err?.message\<close> and \<open>err?.error?.traceId\<close>.
\<close>

record http_result =
  res_traceId :: "string option"
  res_stringify :: string

record http_error =
  err_error_message :: "string option"
  err_message :: "string option"
  err_error_traceId :: "string option"

definition runHttp :: "string \<Rightarrow> string \<Rightarrow> AppComponent \<times> browser \<Rightarrow> AppComponent \<times> browser" where
  "runHttp i u cb =
     (let (c0, b0) = cb
      in (setStatus i loading None c0, b0\<lparr>requests := requests b0 @ [u]\<rparr>))"

definition runHttp_next :: "string \<Rightarrow> http_result \<Rightarrow> AppComponent \<Rightarrow> AppComponent" where
  "runHttp_next i res c =
     (let traceId = or_else (res_traceId res) []
      in setStatus i success
           (Some (if traceId \<noteq> [] then ''TraceId: '' @ traceId
                  else take 100 (res_stringify res))) c)"

definition runHttp_error :: "string \<Rightarrow> http_error \<Rightarrow> AppComponent \<Rightarrow> AppComponent" where
  "runHttp_error i err c =
     (let msg = or_else (or_opt (err_error_message err) (err_message err)) ''Request failed'';
          traceId = or_else (err_error_traceId err) []
      in setStatus i error
           (Some (if traceId \<noteq> [] then msg @ '' | TraceId: '' @ traceId else msg)) c)"

text \<open>Calling the \<open>action\<close> of a button, as a click does.\<close>

fun perform ::
  "engine \<Rightarrow> string \<Rightarrow> action \<Rightarrow> AppComponent \<times> browser
     \<Rightarrow> (js_value + unit) \<times> AppComponent \<times> browser" where
  "perform en API_BASE (RunClient i sim) cb = runClient en i (simulate en sim) cb"
| "perform en API_BASE (RunHttp i call) cb = (Inr (), runHttp i (url API_BASE call) cb)"

text \<open>The id written in a closure, and the completion callbacks of a request.\<close>

fun action_id :: "action \<Rightarrow> string" where
  "action_id (RunClient i sim) = i"
| "action_id (RunHttp i call) = i"

datatype completion = Next http_result | Failed http_error

fun complete :: "string \<Rightarrow> completion \<Rightarrow> AppComponent \<Rightarrow> AppComponent" where
  "complete i (Next res) c = runHttp_next i res c"
| "complete i (Failed err) c = runHttp_error i err c"

text \<open>
  What an invocation with id \<open>i\<close> may do to a descriptor: nothing to one with
  another id, and nothing but a new \<open>status\<close> and \<open>response\<close> to one with this id.
\<close>

definition frame :: "string \<Rightarrow> ActionButton \<Rightarrow> ActionButton \<Rightarrow> bool" where
  "frame i a a' =
     (if id' a = i then a'\<lparr>status := status a, response := response a\<rparr> = a else a' = a)"

definition framed :: "string \<Rightarrow> AppComponent \<Rightarrow> AppComponent \<Rightarrow> bool" where
  "framed i c c' =
     (list_all2 (frame i) (clientActions c) (clientActions c') \<and>
      list_all2 (frame i) (serverActions c) (serverActions c'))"

definition buttons :: "AppComponent \<Rightarrow> ActionButton list" where
  "buttons c = clientActions c @ serverActions c"

section \<open>The page at work\<close>

text \<open>The descriptor \<open>findButton\<close> returns.\<close>

definition the_button :: "string \<Rightarrow> AppComponent \<Rightarrow> ActionButton option" where
  "the_button i c =
     (case findButton i c of
        None \<Rightarrow> None
      | Some (ClientButton k) \<Rightarrow> Some (clientActions c ! k)
      | Some (ServerButton k) \<Rightarrow> Some (serverActions c ! k))"

text \<open>
  What happens in the component after startup: the button at a position of the two
  catalogs is clicked, or the request sent by the button at a position completes and
  one of the two callbacks of its subscription runs.
\<close>

datatype ui_event = Click nat | Completes nat completion

fun ui_step ::
  "engine \<Rightarrow> string \<Rightarrow> ui_event \<Rightarrow> AppComponent \<times> browser \<Rightarrow> AppComponent \<times> browser" where
  "ui_step en API_BASE (Click k) (c, b) =
     (if k < length (buttons c)
      then snd (perform en API_BASE (action (buttons c ! k)) (c, b))
      else (c, b))"
| "ui_step en API_BASE (Completes k outcome) (c, b) =
     (if k < length (buttons c)
      then (case action (buttons c ! k) of
              RunHttp i call \<Rightarrow> (complete i outcome c, b)
            | RunClient i sim \<Rightarrow> (c, b))
      else (c, b))"

text \<open>The position of the button an event is about.\<close>

fun position :: "ui_event \<Rightarrow> nat" where
  "position (Click k) = k"
| "position (Completes k outcome) = k"

fun ui_run ::
  "engine \<Rightarrow> string \<Rightarrow> ui_event list \<Rightarrow> AppComponent \<times> browser \<Rightarrow> AppComponent \<times> browser" where
  "ui_run en API_BASE [] cb = cb"
| "ui_run en API_BASE (ev # evs) cb = ui_run en API_BASE evs (ui_step en API_BASE ev cb)"

text \<open>The instance a listener closes over.\<close>

fun instance_of :: "listener \<Rightarrow> nat" where
  "instance_of (rejection_listener this) = this"
| "instance_of (error_listener this) = this"

text \<open>
  The occurrences the interceptor turns into a span, by the tests in its code, and the
  name of that span. A timer that runs is not one of them.
\<close>

fun reported :: "occurrence \<Rightarrow> bool" where
  "reported (UnhandledRejection r) = True"
| "reported (ResourceLoadFailure el) =
     (tagName el = ''IMG'' \<or> tagName el = ''SCRIPT'' \<or> tagName el = ''LINK'')"
| "reported (UncaughtException e) = True"
| "reported TimerRuns = False"

fun report_name :: "occurrence \<Rightarrow> string" where
  "report_name (UnhandledRejection r) = ''unhandled-promise-rejection''"
| "report_name (ResourceLoadFailure el) = ''resource-load-failure''"
| "report_name (UncaughtException e) = ''uncaught-error''"
| "report_name TimerRuns = []"

fun rethrown :: "occurrence \<Rightarrow> js_value list" where
  "rethrown (UncaughtException e) = [e]"
| "rethrown x = []"

text \<open>Sample inputs: an engine with the messages of a common one, and a video element.\<close>

definition sample_engine :: engine where
  "sample_engine =
     \<lparr>TypeError_reading =
        (\<lambda>v p. ''Cannot read properties of '' @ String v @ '' (reading '' @ [CHR 0x27] @ p @
                [CHR 0x27] @ '')''),
      SyntaxError_parsing = (\<lambda>t. ''Expected property name or } in JSON at position 1'')\<rparr>"

definition video :: element where
  "video = \<lparr>tagName = ''VIDEO'', src = Some ''http://localhost:9999/clip.mp4'', href = None\<rparr>"

text \<open>
  \<open>kept c c'\<close>: the component \<open>c'\<close> has the descriptors of \<open>c\<close>, in the same
  places, apart from their \<open>status\<close> and \<open>response\<close>.
\<close>

definition kept :: "AppComponent \<Rightarrow> AppComponent \<Rightarrow> bool" where
  "kept c c' =
     (list_all2 (\<lambda>a a'. frame (id' a) a a') (clientActions c) (clientActions c') \<and>
      list_all2 (\<lambda>a a'. frame (id' a) a a') (serverActions c) (serverActions c'))"

section \<open>What each action returns\<close>

lemma length_TraceId_ToString: "length (TraceId_ToString t) = 32"
  by (simp add: TraceId_ToString_def)

lemma TraceId_ToString_nonempty: "TraceId_ToString t \<noteq> []"
  using length_TraceId_ToString[of t] by auto

lemmas tracing_defs = StartActivity_def on_activity_def on_current_def Dispose_def
  Current_TraceId_def Log_def LogWith_def record_exception_def StatusCodeResult_def envelope_def
  SetTag_def SetStatus_def AddEvent_def new_activity_def action_trace_def ambient_trace_def

lemma Health_Get_response:
  "fst (Health_Get w) =
     Inr (StatusCodeResult 200
            [(''status'', JString ''healthy''), (''timestamp'', JTimestamp (utcNow w)),
             (''traceId'', render (action_trace w))])"
  by (simp add: Health_Get_def tracing_defs Let_def split: list.splits)

lemma HandledException_response:
  "fst (HandledException w) =
     Inr (StatusCodeResult 500
            [(''error'', JString ''HandledException''),
             (''message'', JString ''Simulated handled exception''),
             (''traceId'', render (action_trace w))])"
  by (simp add: HandledException_def tracing_defs Let_def throw_def
      InvalidOperationException_def split: list.splits)

lemma SqlError_response:
  "fst (SqlError w) =
     Inr (StatusCodeResult 500
            [(''error'', JString ''DatabaseError''),
             (''message'', JString (''Database connection failed: Unable to connect to server '' @
                     [CHR 0x27] @ ''db-server:5432'' @ [CHR 0x27] @ ''. Connection refused.'')),
             (''traceId'', render (action_trace w))])"
  by (simp add: SqlError_def tracing_defs Let_def throw_def SystemException_def
      split: list.splits)

lemma Timeout_response:
  "fst (Timeout w) =
     Inr (StatusCodeResult 200 [(''message'', JString ''Completed after timeout delay'')])"
  by (simp add: Timeout_def tracing_defs Let_def Task_Delay_def split: list.splits)

lemma DependencyFailure_response:
  "fst (DependencyFailure g w) =
     (case g ''http://unreachable-service.local:9999/api/data'' 5 of
        Inr answer \<Rightarrow> Inr \<lparr>StatusCode = 200, Body = NoContent\<rparr>
      | Inl ex \<Rightarrow>
          Inr (StatusCodeResult 502
                 [(''error'', JString ''DependencyFailure''), (''message'', JString (Message ex)),
                  (''traceId'', render (action_trace w))]))"
  by (simp add: DependencyFailure_def tracing_defs Let_def split: list.splits sum.splits)

lemma SerializationError_with_response:
  "fst (SerializationError_with S w) =
     (case S circular_heap 0 of
        Inr json \<Rightarrow> Inr \<lparr>StatusCode = 200, Body = Text json\<rparr>
      | Inl ex \<Rightarrow>
          Inr (StatusCodeResult 500
                 [(''error'', JString ''SerializationError''), (''message'', JString (Message ex)),
                  (''traceId'', render (action_trace w))]))"
  by (simp add: SerializationError_with_def tracing_defs Let_def split: list.splits sum.splits)

lemma AuthFailure_response:
  "fst (AuthFailure w) =
     Inr (StatusCodeResult 401
            [(''error'', JString ''Unauthorized''),
             (''message'', JString ''Invalid or missing authentication token''),
             (''traceId'', render (action_trace w))])"
  by (simp add: AuthFailure_def tracing_defs Let_def split: list.splits)

lemma Forbidden_response:
  "fst (Forbidden w) =
     Inr (StatusCodeResult 403
            [(''error'', JString ''Forbidden''),
             (''message'', JString
                ''You do not have permission to access this resource. Required role: Admin''),
             (''traceId'', render (action_trace w))])"
  by (simp add: Forbidden_def tracing_defs Let_def split: list.splits)

lemma SlowResponse_response:
  "fst (SlowResponse w) =
     Inr (StatusCodeResult 200
            [(''message'', JString ''Slow response completed after 5 seconds''),
             (''delayMs'', JNumber 5000), (''traceId'', render (action_trace w))])"
  by (simp add: SlowResponse_def tracing_defs Let_def Task_Delay_def split: list.splits)


section \<open>The two spikes\<close>

lemma allocate_eq:
  "allocate i data w =
     (data @ replicate (50 - i) (10 * 1024 * 1024),
      w\<lparr>live := live w + (50 - i) * (10 * 1024 * 1024),
        peak := (if i < 50 then max (peak w) (live w + (50 - i) * (10 * 1024 * 1024))
                 else peak w)\<rparr>)"
proof (induction i data w rule: allocate.induct)
  case (1 i data w)
  show ?case
  proof (cases "i < 50")
    case True
    then have r: "replicate (50 - i) (10485760::nat) = 10485760 # replicate (50 - (i + 1)) 10485760"
      by (cases "50 - i") (auto simp: Suc_diff_Suc)
    have m: "(50 - i) * 10485760 = 10485760 + (50 - (i + 1)) * (10485760::nat)"
      using True by (cases "50 - i") (auto simp: Suc_diff_Suc)
    show ?thesis
      using True "1.IH"[OF True]
      apply (subst allocate.simps)
      apply (simp add: new_bytes_def r m del: allocate.simps)
      done
  next
    case False
    then show ?thesis by (subst allocate.simps) simp
  qed
qed

lemma MemorySpike_response:
  "fst (MemorySpike w) =
     Inr (StatusCodeResult 200
            [(''message'', JString ''Memory spike simulation completed''),
             (''allocatedMb'', JNumber 500), (''traceId'', render (action_trace w))])"
  by (simp add: MemorySpike_def tracing_defs Let_def allocate_eq Clear_Collect_def
      del: allocate.simps split: list.splits)

lemma MemorySpike_live: "live (snd (MemorySpike w)) = live w"
  by (simp add: MemorySpike_def tracing_defs Let_def allocate_eq Clear_Collect_def
      sum_list_replicate del: allocate.simps split: list.splits)

lemma MemorySpike_peak:
  "peak (snd (MemorySpike w)) = max (peak w) (live w + 50 * (10 * 1024 * 1024))"
  by (simp add: MemorySpike_def tracing_defs Let_def allocate_eq Clear_Collect_def
      del: allocate.simps split: list.splits)

lemma busy_wait_returns:
  "30000000 \<le> sw n \<Longrightarrow> k \<le> n \<Longrightarrow>
     \<exists>m. busy_wait sw k = Some m \<and> k \<le> m \<and> m \<le> n \<and> 30000000 \<le> sw m \<and>
         (\<forall>j. k \<le> j \<and> j < m \<longrightarrow> sw j < 30000000)"
proof (induction "n - k" arbitrary: k)
  case 0
  then have "k = n" by simp
  with 0 show ?case by (subst busy_wait.simps) auto
next
  case (Suc d)
  show ?case
  proof (cases "sw k < 30000000")
    case False
    then show ?thesis using Suc.prems by (subst busy_wait.simps) auto
  next
    case True
    have d: "d = n - Suc k" and le: "Suc k \<le> n" using Suc.hyps(2) by auto
    from Suc.hyps(1)[OF d Suc.prems(1) le] obtain m where
      m: "busy_wait sw (Suc k) = Some m" "Suc k \<le> m" "m \<le> n" "30000000 \<le> sw m"
         "\<forall>j. Suc k \<le> j \<and> j < m \<longrightarrow> sw j < 30000000" by blast
    have "\<forall>j. k \<le> j \<and> j < m \<longrightarrow> sw j < 30000000"
    proof (intro allI impI)
      fix j assume "k \<le> j \<and> j < m"
      then show "sw j < 30000000" using m(5) True by (cases "j = k") auto
    qed
    with m True show ?thesis by (subst busy_wait.simps) auto
  qed
qed

lemma CpuSpike_response:
  assumes "busy_wait sw 0 = Some k"
  shows "map_option fst (CpuSpike sw w) =
     Some (Inr (StatusCodeResult 200
            [(''message'', JString ''CPU spike simulation completed''),
             (''durationMs'', JNumber (ElapsedMilliseconds sw (if listening w then Suc (Suc (Suc k)) else Suc (Suc k)))),
             (''traceId'', render (action_trace w))]))"
  using assms
  by (simp add: CpuSpike_def tracing_defs Let_def split: list.splits)

section \<open>The exception handler of the pipeline\<close>

lemma UnhandledException_eq:
  "UnhandledException w =
     (Inl (throw ''PathfinderApi.Controllers.ErrorSimulationController.UnhandledException()''
                 NullReferenceException),
      w\<lparr>log := log w @ [\<lparr>Level = Information,
                          Template = ''Triggering unhandled NullReferenceException'',
                          Args = [], Exception = None\<rparr>],
        stopped := (if listening w
                    then stopped w @ [new_activity ''SimulateUnhandledException''
                           (case Current w of [] \<Rightarrow> rootId w | p # _ \<Rightarrow> TraceId p)]
                    else stopped w)\<rparr>)"
  by (simp add: UnhandledException_def StartActivity_def Dispose_def Log_def LogWith_def Let_def)

lemma cyclic_never_serialized:
  "write_object d circular_heap 0 = Inl JsonException \<and>
   write_object d circular_heap 1 = Inl JsonException"
  by (induction d) (simp_all add: circular_heap_def Let_def)

lemma JsonSerializer_rejects_cycle: "JsonSerializer_Serialize circular_heap 0 = Inl JsonException"
  by (simp add: JsonSerializer_Serialize_def cyclic_never_serialized)

lemma handle_request_Inr:
  "controller_action e ep w = Some X \<Longrightarrow> fst X = Inr r \<Longrightarrow>
     handle_request e ep w = Some (r, snd X)"
  by (cases X) (simp add: handle_request_def exception_handler_def)

lemma handle_request_returned:
  "handle_request e ep w = Some (r, w') \<Longrightarrow> controller_action e ep w = Some X \<Longrightarrow>
     fst X = Inr r0 \<Longrightarrow> r = r0"
  by (cases X) (simp add: handle_request_def exception_handler_def)

lemma CpuSpike_Some:
  "CpuSpike sw w = Some X \<Longrightarrow> \<exists>k. busy_wait sw 0 = Some k"
  by (cases "busy_wait sw 0") (auto simp: CpuSpike_def Let_def split: prod.splits)

lemma circular_heap_refs:
  "map_option Ref (circular_heap 0) = Some (Some 1) \<and>
   map_option Ref (circular_heap 1) = Some (Some 0)"
  by (simp add: circular_heap_def Let_def)

text \<open>
  C8. The health endpoint returns 200 for every state of the process, whether reached
  through the pipeline or not; its body has the fields \<open>status\<close>, \<open>timestamp\<close>
  and \<open>traceId\<close>, the timestamp is the reading of the UTC clock, and whenever
  \<open>Activity.Current\<close> is not null where the body is built (a listener samples the
  action's activity, or the request already runs in one) the trace id is a string of
  32 characters, hence not empty.
\<close>

theorem Health_Get_contract:
  "\<exists>r w'. Health_Get w = (Inr r, w') \<and> handle_request e GET_health w = Some (r, w') \<and>
     StatusCode r = 200 \<and> keys r = [''status'', ''timestamp'', ''traceId''] \<and>
     field ''status'' r = Some (JString ''healthy'') \<and>
     field ''timestamp'' r = Some (JTimestamp (utcNow w)) \<and>
     (listening w \<or> Current w \<noteq> [] \<longrightarrow>
        (\<exists>t. field ''traceId'' r = Some (JString t) \<and> length t = 32 \<and> t \<noteq> []))"
proof -
  obtain res w' where eq: "Health_Get w = (res, w')" by (cases "Health_Get w")
  with Health_Get_response[of w] have res: "res = Inr (StatusCodeResult 200
            [(''status'', JString ''healthy''), (''timestamp'', JTimestamp (utcNow w)),
             (''traceId'', render (action_trace w))])" by simp
  have tr: "listening w \<or> Current w \<noteq> [] \<Longrightarrow> \<exists>t. action_trace w = Some t"
    by (auto simp: action_trace_def split: list.splits)
  show ?thesis
    using eq res tr
    by (auto simp: handle_request_def exception_handler_def StatusCodeResult_def
        length_TraceId_ToString TraceId_ToString_nonempty)
qed

theorem Health_Get_contract_witness:
  "\<exists>r w'. Health_Get traced_world = (Inr r, w') \<and> StatusCode r = 200 \<and>
     field ''timestamp'' r = Some (JTimestamp 0) \<and>
     (\<exists>t. field ''traceId'' r = Some (JString t) \<and> length t = 32 \<and> t \<noteq> [])"
  using Health_Get_contract[of traced_world sample_env]
  by (auto simp: traced_world_def)

text \<open>
  C1, as stated, fails for dependency-failure: the action answers 502 only when the
  call of the downstream address throws. When the address answers, the call returns,
  the action returns \<open>Ok()\<close>, and the response has status 200 and no body.
\<close>

theorem dependency_answer_gives_200:
  "map_option (StatusCode \<circ> fst)
     (handle_request (runtime second_clock answered) GET_dependency_failure untraced_world) =
     Some 200 \<and>
   map_option (Body \<circ> fst)
     (handle_request (runtime second_clock answered) GET_dependency_failure untraced_world) =
     Some NoContent \<and>
   documented_status GET_dependency_failure = 502"
proof -
  have "fst (DependencyFailure answered untraced_world) = Inr \<lparr>StatusCode = 200, Body = NoContent\<rparr>"
    by (simp add: DependencyFailure_response answered_def)
  from handle_request_Inr[OF _ this, of "runtime second_clock answered" GET_dependency_failure]
  show ?thesis by (simp add: runtime_def)
qed

text \<open>
  C1, amended. Each of the six endpoints that handle their error in the action
  returns a response from every state of the process, and no exception escapes the
  action, so the pipeline passes the response on unchanged. For handled-exception,
  sql-error, serialization-error, auth-failure and forbidden, and for
  dependency-failure when the call of the downstream address throws, the response has
  the status documented for the endpoint (500, 500, 500, 401, 403 and 502) and a body
  of exactly the fields \<open>error\<close>, \<open>message\<close> and \<open>traceId\<close>, where \<open>error\<close> is
  the string the action writes and \<open>message\<close> is a string. For dependency-failure
  when the downstream address answers, the response has status 200 and no body. The
  serializer is the library's.
\<close>

theorem handled_locally_contract:
  assumes "ep \<in> set handled_locally"
  shows "\<exists>r w'.
           controller_action (runtime c g) ep w = Some (Inr r, w') \<and>
           handle_request (runtime c g) ep w = Some (r, w') \<and>
           (if ep = GET_dependency_failure \<and> (\<exists>a. g dependency_url 5 = Inr a)
            then StatusCode r = 200 \<and> Body r = NoContent
            else StatusCode r = documented_status ep \<and>
                 keys r = [''error'', ''message'', ''traceId''] \<and>
                 field ''error'' r = Some (JString (error_kind ep)) \<and>
                 (\<exists>msg. field ''message'' r = Some (JString msg)))"
proof -
  have pass: "\<exists>r w'.
           controller_action (runtime c g) ep w = Some (Inr r, w') \<and>
           handle_request (runtime c g) ep w = Some (r, w') \<and>
           StatusCode r = n \<and>
           keys r = [''error'', ''message'', ''traceId''] \<and>
           field ''error'' r = Some (JString e1) \<and>
           (\<exists>msg. field ''message'' r = Some (JString msg))"
    if "controller_action (runtime c g) ep w = Some X"
      and "fst X = Inr (StatusCodeResult n [(''error'', JString e1), (''message'', JString m1),
                                        (''traceId'', t1)])"
    for X n e1 m1 t1
    using handle_request_Inr[OF that] that
    by (cases X) (auto simp: StatusCodeResult_def)
  from assms(1) consider "ep = GET_handled_exception" | "ep = GET_sql_error"
    | "ep = GET_dependency_failure" | "ep = GET_serialization_error"
    | "ep = GET_auth_failure" | "ep = GET_forbidden"
    by (auto simp: handled_locally_def)
  then show ?thesis
  proof cases
    case 1
    then show ?thesis using pass[OF _ HandledException_response[of w]] by simp
  next
    case 2
    then show ?thesis using pass[OF _ SqlError_response[of w]] by simp
  next
    case 3
    show ?thesis
    proof (cases "g dependency_url 5")
      case (Inl ex)
      then have "fst (DependencyFailure g w) = Inr (StatusCodeResult 502
                 [(''error'', JString ''DependencyFailure''), (''message'', JString (Message ex)),
                  (''traceId'', render (action_trace w))])"
        by (simp add: DependencyFailure_response dependency_url_def)
      from pass[OF _ this] 3 Inl show ?thesis by (simp add: runtime_def)
    next
      case (Inr a)
      then have r: "fst (DependencyFailure g w) = Inr \<lparr>StatusCode = 200, Body = NoContent\<rparr>"
        by (simp add: DependencyFailure_response dependency_url_def)
      obtain res w1 where X: "DependencyFailure g w = (res, w1)" by (cases "DependencyFailure g w")
      with r have res: "res = Inr \<lparr>StatusCode = 200, Body = NoContent\<rparr>" by simp
      from X res 3 Inr show ?thesis
        by (simp add: runtime_def handle_request_def exception_handler_def)
    qed
  next
    case 4
    have "fst (SerializationError_with JsonSerializer_Serialize w) = Inr (StatusCodeResult 500
                 [(''error'', JString ''SerializationError''),
                  (''message'', JString (Message JsonException)),
                  (''traceId'', render (action_trace w))])"
      by (simp add: SerializationError_with_response JsonSerializer_rejects_cycle)
    from pass[OF _ this] 4 show ?thesis by (simp add: runtime_def)
  next
    case 5
    then show ?thesis using pass[OF _ AuthFailure_response[of w]] by simp
  next
    case 6
    then show ?thesis using pass[OF _ Forbidden_response[of w]] by simp
  qed
qed

theorem handled_locally_contract_witness:
  "GET_dependency_failure \<in> set handled_locally \<and>
   (\<exists>r w' msg.
      handle_request sample_env GET_dependency_failure untraced_world = Some (r, w') \<and>
      StatusCode r = 502 \<and> field ''error'' r = Some (JString ''DependencyFailure'') \<and>
      field ''message'' r = Some (JString msg))"
proof -
  have a: "GET_dependency_failure \<in> set handled_locally" by (simp add: handled_locally_def)
  show ?thesis
    using handled_locally_contract[OF a, of second_clock refused untraced_world] a
    by (auto simp: sample_env_def refused_def)
qed

text \<open>
  C2. The action of the unhandled-exception endpoint does not catch its
  \<open>NullReferenceException\<close>: the exception escapes the action. The exception handler
  of the pipeline then answers with status 500 and the envelope of the three fields
  \<open>error\<close>, \<open>message\<close>, \<open>traceId\<close>, writes exactly one log entry that carries the
  exception itself, and, when the request runs in an activity, sets the error status
  and adds the \<open>exception\<close> event with type, message and stack trace to that activity.
\<close>

theorem unhandled_exception_contract:
  "\<exists>ex w1 r w'.
     controller_action e GET_unhandled_exception w = Some (Inl ex, w1) \<and>
     TypeName ex = ''NullReferenceException'' \<and>
     handle_request e GET_unhandled_exception w = Some (r, w') \<and>
     StatusCode r = 500 \<and>
     keys r = [''error'', ''message'', ''traceId''] \<and>
     field ''error'' r = Some (JString ''NullReferenceException'') \<and>
     field ''message'' r = Some (JString (Message ex)) \<and>
     field ''traceId'' r = Some (render (ambient_trace w)) \<and>
     log w' = log w1 @
       [\<lparr>Level = LogError, Template = ''Unhandled exception on {Path}'',
         Args = [TString ''/api/errors/unhandled-exception''], Exception = Some ex\<rparr>] \<and>
     filter (\<lambda>l. Exception l \<noteq> None) (log w1) = filter (\<lambda>l. Exception l \<noteq> None) (log w) \<and>
     (\<forall>a rest. Current w = a # rest \<longrightarrow>
        Current w' =
          a\<lparr>Status := Error, StatusDescription := Some (Message ex),
            Events := Events a @
              [\<lparr>EventName = ''exception'',
                EventTags = [(''exception.type'', TString (TypeFullName ex)),
                             (''exception.message'', TString (Message ex)),
                             (''exception.stacktrace'',
                                TString (case StackTrace ex of None \<Rightarrow> [] | Some s \<Rightarrow> s))]\<rparr>]\<rparr>
          # rest)"
  by (simp add: handle_request_def exception_handler_def UnhandledException_eq Let_def
      throw_def NullReferenceException_def tracing_defs exception_event_def
      split: list.splits)

theorem unhandled_exception_contract_witness:
  "\<exists>r w'. handle_request sample_env GET_unhandled_exception traced_world = Some (r, w') \<and>
     StatusCode r = 500 \<and>
     map Status (Current w') = [Error] \<and>
     map (map EventName \<circ> Events) (Current w') = [[''exception'']]"
  using unhandled_exception_contract[of sample_env traced_world]
  by (auto simp: traced_world_def new_activity_def)

text \<open>
  C6. With a stopwatch that never runs backwards and reaches three seconds, the
  cpu-spike action returns: its loop stops at the first reading \<open>k\<close> of at least
  \<open>30000000\<close> ticks, the response has status 200, and its \<open>durationMs\<close> is the
  stopwatch read again after the loop (the third reading after \<open>k\<close> when the action
  has an activity, the second otherwise), in milliseconds, which is at least 3000.
  The memory-spike action allocates 50 arrays of \<open>10 * 1024 * 1024\<close> bytes, which
  raises the bytes held to 500 MB above those held before, holds none of them when it
  returns, and answers 200 with \<open>allocatedMb\<close> equal to 500.
\<close>

theorem spikes_contract:
  assumes "mono sw" and "\<exists>n. 30000000 \<le> sw n"
  shows "(\<exists>k r w'.
            busy_wait sw 0 = Some k \<and> 30000000 \<le> sw k \<and> (\<forall>j<k. sw j < 30000000) \<and>
            CpuSpike sw w = Some (Inr r, w') \<and> StatusCode r = 200 \<and>
            keys r = [''message'', ''durationMs'', ''traceId''] \<and>
            field ''durationMs'' r =
              Some (JNumber (int (sw (if listening w then k + 3 else k + 2) div 10000))) \<and>
            3000 \<le> int (sw (if listening w then k + 3 else k + 2) div 10000)) \<and>
         (\<exists>r w'.
            MemorySpike w = (Inr r, w') \<and> StatusCode r = 200 \<and>
            keys r = [''message'', ''allocatedMb'', ''traceId''] \<and>
            field ''allocatedMb'' r = Some (JNumber 500) \<and>
            fst (allocate 0 [] v) = replicate 50 (10 * 1024 * 1024) \<and>
            live (snd (allocate 0 [] v)) = live v + 500 * 1024 * 1024 \<and>
            live w' = live w \<and> peak w' = max (peak w) (live w + 500 * 1024 * 1024))"
proof -
  from assms(2) obtain n where n: "30000000 \<le> sw n" by blast
  from busy_wait_returns[of sw n 0] n obtain k where
    k: "busy_wait sw 0 = Some k" "30000000 \<le> sw k" "\<forall>j<k. sw j < 30000000" by auto
  let ?k3 = "if listening w then k + 3 else k + 2"
  have k3: "(if listening w then Suc (Suc (Suc k)) else Suc (Suc k)) = ?k3" by simp
  have "sw k \<le> sw ?k3" using assms(1) by (auto intro: monoD)
  with k(2) have "30000000 \<le> sw ?k3" by linarith
  then have d: "3000 \<le> int (sw ?k3 div 10000)"
    by (simp add: less_eq_div_iff_mult_less_eq)
  obtain res w' where cpu: "CpuSpike sw w = Some (res, w')"
    using CpuSpike_response[OF k(1), of w] by (cases "CpuSpike sw w") auto
  with CpuSpike_response[OF k(1), of w] have res: "res = Inr (StatusCodeResult 200
            [(''message'', JString ''CPU spike simulation completed''),
             (''durationMs'', JNumber (int (sw ?k3 div 10000))),
             (''traceId'', render (action_trace w))])"
    unfolding k3 ElapsedMilliseconds_def by simp
  have first: "\<exists>k r w'.
            busy_wait sw 0 = Some k \<and> 30000000 \<le> sw k \<and> (\<forall>j<k. sw j < 30000000) \<and>
            CpuSpike sw w = Some (Inr r, w') \<and> StatusCode r = 200 \<and>
            keys r = [''message'', ''durationMs'', ''traceId''] \<and>
            field ''durationMs'' r =
              Some (JNumber (int (sw (if listening w then k + 3 else k + 2) div 10000))) \<and>
            3000 \<le> int (sw (if listening w then k + 3 else k + 2) div 10000)"
  proof (intro exI conjI)
    show "busy_wait sw 0 = Some k" by (rule k(1))
    show "30000000 \<le> sw k" by (rule k(2))
    show "\<forall>j<k. sw j < 30000000" by (rule k(3))
    show "CpuSpike sw w = Some (Inr (StatusCodeResult 200
            [(''message'', JString ''CPU spike simulation completed''),
             (''durationMs'', JNumber (int (sw ?k3 div 10000))),
             (''traceId'', render (action_trace w))]), w')"
      using cpu res by simp
    show "3000 \<le> int (sw ?k3 div 10000)" by (rule d)
  qed (simp_all add: StatusCodeResult_def)
  obtain mres mw where mem: "MemorySpike w = (mres, mw)" by (cases "MemorySpike w")
  have second: "\<exists>r w'.
            MemorySpike w = (Inr r, w') \<and> StatusCode r = 200 \<and>
            keys r = [''message'', ''allocatedMb'', ''traceId''] \<and>
            field ''allocatedMb'' r = Some (JNumber 500) \<and>
            fst (allocate 0 [] v) = replicate 50 (10 * 1024 * 1024) \<and>
            live (snd (allocate 0 [] v)) = live v + 500 * 1024 * 1024 \<and>
            live w' = live w \<and> peak w' = max (peak w) (live w + 500 * 1024 * 1024)"
    using mem MemorySpike_response[of w] MemorySpike_live[of w] MemorySpike_peak[of w]
    by (auto simp: StatusCodeResult_def allocate_eq simp del: allocate.simps)
  from first second show ?thesis by blast
qed

theorem spikes_contract_witness:
  "mono second_clock \<and> (\<exists>n. 30000000 \<le> second_clock n) \<and>
   (\<exists>r w'. CpuSpike second_clock traced_world = Some (Inr r, w') \<and> StatusCode r = 200 \<and>
      busy_wait second_clock 0 = Some 3 \<and>
      field ''durationMs'' r = Some (JNumber 6000))"
proof -
  have a: "mono second_clock" by (simp add: mono_def second_clock_def)
  have "30000000 \<le> second_clock 3" by (simp add: second_clock_def)
  then have b: "\<exists>n. 30000000 \<le> second_clock n" by blast
  from spikes_contract[OF a b, of traced_world] obtain k r w' where
    k: "busy_wait second_clock 0 = Some k" "30000000 \<le> second_clock k"
       "\<forall>j<k. second_clock j < 30000000" and
    r: "CpuSpike second_clock traced_world = Some (Inr r, w')" "StatusCode r = 200"
       "field ''durationMs'' r =
          Some (JNumber (int (second_clock (if listening traced_world then k + 3 else k + 2)
                              div 10000)))"
    by blast
  from k(2) have "3 \<le> k" by (simp add: second_clock_def)
  moreover have "\<not> 3 < k" using k(3) by (auto simp: second_clock_def)
  ultimately have k3: "k = 3" by simp
  from r(3) have "field ''durationMs'' r = Some (JNumber 6000)"
    unfolding k3 by (simp add: traced_world_def second_clock_def)
  with a b k(1) r(1,2) k3 show ?thesis by blast
qed

text \<open>
  C7, as stated, fails: the success body of the timeout endpoint has the single field
  \<open>message\<close>, with tracing active or not.
\<close>

theorem timeout_body_without_traceId:
  "map_option (keys \<circ> fst) (handle_request sample_env GET_timeout traced_world) =
     Some [''message''] \<and>
   map_option (field ''traceId'' \<circ> fst) (handle_request sample_env GET_timeout traced_world) =
     Some None"
  using handle_request_Inr[OF _ Timeout_response, of sample_env GET_timeout traced_world]
  by (simp add: StatusCodeResult_def)

text \<open>
  C7, amended. Every response body of the pipeline other than that of the timeout
  endpoint has a \<open>traceId\<close> field: \<open>null\<close> when \<open>Activity.Current\<close> is null where
  the body is built, and otherwise the 32 hex digits of the trace id of
  \<open>Activity.Current\<close>. That is the action's own activity or the one around the
  request for a body built in an action, and the activity around the request for the
  envelope of the exception handler. The body of the timeout endpoint has the field
  \<open>message\<close> only, and the response of dependency-failure has no body at all when the
  downstream address answers.
\<close>

theorem traceId_field_contract:
  assumes "handle_request (runtime c g) ep w = Some (r, w')"
  shows "(ep = GET_timeout \<longrightarrow> keys r = [''message'']) \<and>
         (ep = GET_dependency_failure \<and> (\<exists>a. g dependency_url 5 = Inr a) \<longrightarrow>
            Body r = NoContent) \<and>
         (ep \<noteq> GET_timeout \<and>
          \<not> (ep = GET_dependency_failure \<and> (\<exists>a. g dependency_url 5 = Inr a)) \<longrightarrow>
            ''traceId'' \<in> set (keys r) \<and>
            field ''traceId'' r =
              Some (render (if ep = GET_unhandled_exception then ambient_trace w
                            else action_trace w)))"
proof (cases ep)
  case GET_health
  then show ?thesis
    using handle_request_returned[OF assms _ Health_Get_response[of w]]
    by (simp add: StatusCodeResult_def)
next
  case GET_unhandled_exception
  then show ?thesis
    using assms
    by (auto simp: handle_request_def exception_handler_def UnhandledException_eq Let_def
        tracing_defs split: list.splits)
next
  case GET_handled_exception
  then show ?thesis
    using handle_request_returned[OF assms _ HandledException_response[of w]]
    by (simp add: StatusCodeResult_def)
next
  case GET_sql_error
  then show ?thesis
    using handle_request_returned[OF assms _ SqlError_response[of w]]
    by (simp add: StatusCodeResult_def)
next
  case GET_timeout
  then show ?thesis
    using handle_request_returned[OF assms _ Timeout_response[of w]]
    by (simp add: StatusCodeResult_def)
next
  case GET_cpu_spike
  with assms obtain X where X: "CpuSpike c w = Some X"
    by (cases "CpuSpike c w") (auto simp: handle_request_def exception_handler_def runtime_def)
  from CpuSpike_Some[OF X] obtain k where k: "busy_wait c 0 = Some k" by blast
  from CpuSpike_response[OF k, of w] X have "fst X = Inr (StatusCodeResult 200
            [(''message'', JString ''CPU spike simulation completed''),
             (''durationMs'', JNumber (ElapsedMilliseconds c
                (if listening w then Suc (Suc (Suc k)) else Suc (Suc k)))),
             (''traceId'', render (action_trace w))])" by simp
  from handle_request_returned[OF assms _ this] X GET_cpu_spike show ?thesis
    by (simp add: StatusCodeResult_def runtime_def)
next
  case GET_memory_spike
  then show ?thesis
    using handle_request_returned[OF assms _ MemorySpike_response[of w]]
    by (simp add: StatusCodeResult_def)
next
  case GET_dependency_failure
  show ?thesis
  proof (cases "g dependency_url 5")
    case (Inl ex)
    then have "fst (DependencyFailure g w) = Inr (StatusCodeResult 502
                 [(''error'', JString ''DependencyFailure''), (''message'', JString (Message ex)),
                  (''traceId'', render (action_trace w))])"
      by (simp add: DependencyFailure_response dependency_url_def)
    from handle_request_returned[OF assms _ this] GET_dependency_failure Inl show ?thesis
      by (simp add: StatusCodeResult_def runtime_def)
  next
    case (Inr answer)
    then have "fst (DependencyFailure g w) = Inr \<lparr>StatusCode = 200, Body = NoContent\<rparr>"
      by (simp add: DependencyFailure_response dependency_url_def)
    from handle_request_returned[OF assms _ this] GET_dependency_failure Inr show ?thesis
      by (simp add: runtime_def)
  qed
next
  case GET_serialization_error
  have "fst (SerializationError_with JsonSerializer_Serialize w) = Inr (StatusCodeResult 500
                 [(''error'', JString ''SerializationError''),
                  (''message'', JString (Message JsonException)),
                  (''traceId'', render (action_trace w))])"
    by (simp add: SerializationError_with_response JsonSerializer_rejects_cycle)
  from handle_request_returned[OF assms _ this] GET_serialization_error show ?thesis
    by (simp add: StatusCodeResult_def runtime_def)
next
  case GET_auth_failure
  then show ?thesis
    using handle_request_returned[OF assms _ AuthFailure_response[of w]]
    by (simp add: StatusCodeResult_def)
next
  case GET_forbidden
  then show ?thesis
    using handle_request_returned[OF assms _ Forbidden_response[of w]]
    by (simp add: StatusCodeResult_def)
next
  case GET_slow_response
  then show ?thesis
    using handle_request_returned[OF assms _ SlowResponse_response[of w]]
    by (simp add: StatusCodeResult_def)
qed

theorem traceId_field_contract_witness:
  "\<exists>r w'. handle_request (runtime second_clock refused) GET_unhandled_exception untraced_world =
             Some (r, w') \<and>
          GET_unhandled_exception \<noteq> GET_timeout \<and>
          GET_unhandled_exception \<noteq> GET_dependency_failure \<and>
          ''traceId'' \<in> set (keys r) \<and> field ''traceId'' r = Some JNull"
proof -
  obtain r w' where
    h: "handle_request (runtime second_clock refused) GET_unhandled_exception untraced_world =
          Some (r, w')"
    by (simp add: handle_request_def exception_handler_def UnhandledException_eq Let_def)
  from traceId_field_contract[OF h]
  have "''traceId'' \<in> set (keys r) \<and>
        field ''traceId'' r = Some (render (ambient_trace untraced_world))" by simp
  then have "''traceId'' \<in> set (keys r) \<and> field ''traceId'' r = Some JNull"
    by (simp add: ambient_trace_def untraced_world_def)
  with h show ?thesis by blast
qed

text \<open>
  C3, as stated, fails for the serialization-error action: it builds two objects that
  refer to each other and hands them to the serializer, and its response is whatever
  the serializer decides. With a serializer that accepts the structure the action
  answers 200 with the text; with the library's it answers 500 with the message of the
  exception the library throws.
\<close>

theorem serialization_is_attempted:
  "map_option Ref (circular_heap 0) = Some (Some 1) \<and>
   map_option Ref (circular_heap 1) = Some (Some 0) \<and>
   fst (SerializationError_with accepting untraced_world) =
     Inr \<lparr>StatusCode = 200, Body = Text ''{}''\<rparr> \<and>
   fst (SerializationError untraced_world) =
     Inr (StatusCodeResult 500
            [(''error'', JString ''SerializationError''),
             (''message'', JString (Message JsonException)), (''traceId'', JNull)]) \<and>
   fst (SerializationError_with accepting untraced_world) \<noteq> fst (SerializationError untraced_world)"
  using circular_heap_refs
  by (simp add: SerializationError_def SerializationError_with_response
      accepting_def JsonSerializer_rejects_cycle action_trace_def untraced_world_def
      StatusCodeResult_def)

text \<open>
  C3, amended. The sql-error action makes up its error itself: it throws an exception
  with a fixed message and answers 500 with that message, whatever the state. The
  serialization-error action performs the operation: it serializes a structure in
  which the object at 0 refers to the object at 1 and back, answers 500 with the
  message of the exception when the serializer throws and 200 with the text when it
  does not; the library's serializer throws on this structure at every depth limit.
\<close>

theorem fabricated_and_performed:
  "fst (SqlError w) =
     Inr (StatusCodeResult 500
            [(''error'', JString ''DatabaseError''),
             (''message'', JString (''Database connection failed: Unable to connect to server '' @
                     [CHR 0x27] @ ''db-server:5432'' @ [CHR 0x27] @ ''. Connection refused.'')),
             (''traceId'', render (action_trace w))]) \<and>
   fst (SerializationError_with S w) =
     (case S circular_heap 0 of
        Inr json \<Rightarrow> Inr \<lparr>StatusCode = 200, Body = Text json\<rparr>
      | Inl ex \<Rightarrow>
          Inr (StatusCodeResult 500
                 [(''error'', JString ''SerializationError''), (''message'', JString (Message ex)),
                  (''traceId'', render (action_trace w))])) \<and>
   map_option Ref (circular_heap 0) = Some (Some 1) \<and>
   map_option Ref (circular_heap 1) = Some (Some 0) \<and>
   write_object d circular_heap 0 = Inl JsonException \<and>
   fst (SerializationError w) =
     Inr (StatusCodeResult 500
            [(''error'', JString ''SerializationError''),
             (''message'', JString (Message JsonException)),
             (''traceId'', render (action_trace w))])"
  using circular_heap_refs
  by (simp add: SqlError_response SerializationError_with_response
      cyclic_never_serialized SerializationError_def JsonSerializer_rejects_cycle)

section \<open>The descriptors of the component\<close>

lemma frame_refl: "frame i a a"
  by (simp add: frame_def)

lemma frame_trans:
  assumes "frame i a a'" and "frame i a' a''"
  shows "frame i a a''"
proof (cases "id' a = i")
  case True
  with assms(1) have 1: "a'\<lparr>status := status a, response := response a\<rparr> = a"
    by (simp add: frame_def)
  from arg_cong[OF 1, of id'] have "id' a' = id' a" by simp
  with True assms(2) have 2: "a''\<lparr>status := status a', response := response a'\<rparr> = a'"
    by (simp add: frame_def)
  have "a''\<lparr>status := status a, response := response a\<rparr> =
          (a''\<lparr>status := status a', response := response a'\<rparr>)
            \<lparr>status := status a, response := response a\<rparr>" by simp
  also have "\<dots> = a" by (simp only: 2 1)
  finally show ?thesis using True by (simp add: frame_def)
next
  case False
  with assms(1) have "a' = a" by (simp add: frame_def)
  with False assms(2) show ?thesis by (simp add: frame_def)
qed

lemma find_from_bound: "find_from P xs k = Some n \<Longrightarrow> k \<le> n \<and> n < k + length xs \<and> P (xs ! (n - k))"
proof (induction xs arbitrary: k)
  case Nil then show ?case by simp
next
  case (Cons x xs)
  show ?case
  proof (cases "P x")
    case True with Cons.prems show ?thesis by simp
  next
    case False
    with Cons.prems have "find_from P xs (Suc k) = Some n" by simp
    from Cons.IH[OF this] show ?thesis by (auto simp: Suc_diff_le)
  qed
qed

lemma list_all2_frame_update:
  "k < length xs \<Longrightarrow> id' (xs ! k) = i \<Longrightarrow>
     list_all2 (frame i) xs (xs[k := (xs ! k)\<lparr>status := st, response := resp\<rparr>])"
  by (auto simp: list_all2_conv_all_nth nth_list_update frame_def)

lemma list_all2_frame_refl: "list_all2 (frame i) xs xs"
  by (simp add: list_all2_conv_all_nth frame_refl)

lemma framed_refl: "framed i c c"
  by (simp add: framed_def list_all2_frame_refl)

lemma framed_trans: "framed i c c' \<Longrightarrow> framed i c' c'' \<Longrightarrow> framed i c c''"
  using list_all2_trans[of "frame i" "frame i" "frame i", OF frame_trans]
  by (auto simp: framed_def)

lemma setStatus_framed: "framed i c (setStatus i st resp c)"
proof (cases "findButton i c")
  case None
  then show ?thesis by (simp add: setStatus_def framed_refl)
next
  case (Some ref)
  show ?thesis
  proof (cases ref)
    case (ClientButton k)
    with Some have "find_from (\<lambda>a. id' a = i) (clientActions c) 0 = Some k"
      by (auto simp: findButton_def split: option.splits)
    from find_from_bound[OF this] have "k < length (clientActions c)" "id' (clientActions c ! k) = i"
      by auto
    then show ?thesis using Some ClientButton
      by (simp add: setStatus_def framed_def list_all2_frame_update list_all2_frame_refl)
  next
    case (ServerButton k)
    with Some have "find_from (\<lambda>a. id' a = i) (serverActions c) 0 = Some k"
      by (auto simp: findButton_def split: option.splits)
    from find_from_bound[OF this] have "k < length (serverActions c)" "id' (serverActions c ! k) = i"
      by auto
    then show ?thesis using Some ServerButton
      by (simp add: setStatus_def framed_def list_all2_frame_update list_all2_frame_refl)
  qed
qed

lemma runClient_framed: "framed i c (fst (snd (runClient en i fn (c, b))))"
proof -
  have 1: "framed i c (setStatus i loading None c)" by (rule setStatus_framed)
  have 2: "framed i c (setStatus i error m (setStatus i loading None c))" for m
    by (rule framed_trans[OF 1 setStatus_framed])
  show ?thesis
    by (auto simp: runClient_def Let_def 1 2 split: prod.splits sum.splits)
qed

lemma perform_framed: "framed (action_id a) c (fst (snd (perform en base a (c, b))))"
  by (cases a) (simp_all add: runClient_framed runHttp_def setStatus_framed)

lemma complete_framed: "framed i c (complete i outcome c)"
  by (cases outcome) (simp_all add: runHttp_next_def runHttp_error_def Let_def setStatus_framed)

lemma ui_step_framed:
  assumes "position ev < length (buttons c)"
  shows "framed (action_id (action (buttons c ! position ev))) c
           (fst (ui_step en base ev (c, b)))"
proof (cases ev)
  case (Click k)
  with assms show ?thesis
    using perform_framed[of "action (buttons c ! k)" c en base b] by simp
next
  case (Completes k outcome)
  with assms show ?thesis
    using complete_framed[of "action_id (action (buttons c ! k))" c outcome]
    by (cases "action (buttons c ! k)") (auto simp: framed_refl)
qed

lemma ui_step_beyond:
  assumes "\<not> position ev < length (buttons c)"
  shows "ui_step en base ev (c, b) = (c, b)"
  using assms by (cases ev) auto

lemma frame_same: "frame i a a' \<Longrightarrow> frame (id' a) a a'"
  by (cases "id' a = i") (auto simp: frame_def)

lemma frame_id: "frame i a a' \<Longrightarrow> id' a' = id' a \<and> action a' = action a"
  by (cases "id' a = i") (auto simp: frame_def dest: arg_cong[of _ _ id'] arg_cong[of _ _ action])

lemma framed_kept: "framed i c c' \<Longrightarrow> kept c c'"
  unfolding framed_def kept_def
  by (auto elim!: list_all2_mono frame_same)

lemma kept_refl: "kept c c"
  by (simp add: kept_def list_all2_conv_all_nth frame_refl)

lemma kept_trans:
  assumes "kept c c'" and "kept c' c''"
  shows "kept c c''"
proof -
  have t: "frame (id' a) a a''" if "frame (id' a) a a'" and "frame (id' a') a' a''" for a a' a''
    using frame_trans[of "id' a" a a' a''] that frame_id[OF that(1)] by simp
  show ?thesis
    using assms list_all2_trans[of "\<lambda>a a'. frame (id' a) a a'" "\<lambda>a a'. frame (id' a) a a'"
        "\<lambda>a a'. frame (id' a) a a'", OF t]
    by (auto simp: kept_def)
qed

lemma framed_buttons: "framed i c c' \<Longrightarrow> list_all2 (frame i) (buttons c) (buttons c')"
  by (simp add: framed_def buttons_def list_all2_appendI)

lemma kept_buttons: "kept c c' \<Longrightarrow> list_all2 (\<lambda>a a'. frame (id' a) a a') (buttons c) (buttons c')"
  by (simp add: kept_def buttons_def list_all2_appendI)

lemma kept_nth:
  assumes "kept c c'" and "j < length (buttons c)"
  shows "length (buttons c') = length (buttons c)"
    and "id' (buttons c' ! j) = id' (buttons c ! j)"
    and "action (buttons c' ! j) = action (buttons c ! j)"
  using kept_buttons[OF assms(1)] assms(2) frame_id
  by (auto simp: list_all2_conv_all_nth)

lemma ui_step_kept: "kept c (fst (ui_step en base ev (c, b)))"
proof (cases "position ev < length (buttons c)")
  case True
  from framed_kept[OF ui_step_framed[OF True]] show ?thesis .
next
  case False
  from ui_step_beyond[OF False] show ?thesis by (simp add: kept_refl)
qed

lemma ui_run_kept: "kept c0 c \<Longrightarrow> kept c0 (fst (ui_run en base evs (c, b)))"
proof (induction evs arbitrary: c b)
  case Nil
  then show ?case by simp
next
  case (Cons ev evs)
  obtain c1 b1 where s: "ui_step en base ev (c, b) = (c1, b1)" by (cases "ui_step en base ev (c, b)")
  with ui_step_kept[of c en base ev b] have "kept c c1" by simp
  from Cons.IH[OF kept_trans[OF Cons.prems this], of b1] s show ?case by simp
qed

lemma startup_ids:
  "map id' (buttons startup) =
     [''js-exception'', ''promise-rejection'', ''network-failure'', ''cors-failure'',
      ''json-parse'', ''resource-load'', ''health'', ''unhandled'', ''handled'', ''sql'',
      ''timeout'', ''cpu'', ''memory'', ''dependency'', ''serialization'', ''auth'',
      ''forbidden'', ''slow'']"
  by (simp add: startup_def buttons_def)

lemma startup_own_ids: "map (action_id \<circ> action) (buttons startup) = map id' (buttons startup)"
  by (simp add: startup_def buttons_def)

lemma startup_distinct: "distinct (map id' (buttons startup))"
  unfolding startup_ids by simp

lemma startup_length: "length (buttons startup) = 18"
  using arg_cong[OF startup_ids, of length] by simp

text \<open>
  C9. In every state the component reaches after startup, a click of a button, or the
  completion of the request of a button, leaves all 18 descriptors in place, leaves
  every descriptor at a position other than that of the button exactly as it was, and
  changes nothing but \<open>status\<close> and \<open>response\<close> in any descriptor, so that each is
  still the descriptor of the static catalog.
\<close>

theorem only_own_descriptor_mutated:
  assumes "cb = ui_run en base evs (startup, b0)"
  shows "kept startup (fst (ui_step en base ev cb)) \<and>
         length (clientActions (fst (ui_step en base ev cb))) = 6 \<and>
         length (serverActions (fst (ui_step en base ev cb))) = 12 \<and>
         (\<forall>j<18. j \<noteq> position ev \<longrightarrow>
            buttons (fst (ui_step en base ev cb)) ! j = buttons (fst cb) ! j)"
proof -
  obtain c b where cb: "cb = (c, b)" by (cases cb)
  define c' where "c' = fst (ui_step en base ev (c, b))"
  have "fst (ui_run en base evs (startup, b0)) = c"
    using assms(1) cb by (metis fst_conv)
  with ui_run_kept[OF kept_refl, of startup en base evs b0] have kc: "kept startup c"
    by simp
  have kc': "kept startup c'"
    unfolding c'_def by (rule kept_trans[OF kc ui_step_kept])
  have len: "length (buttons c) = 18"
    using kept_nth(1)[OF kc, of 0] startup_length by simp
  have lens: "length (clientActions c') = 6 \<and> length (serverActions c') = 12"
    using kc' by (auto simp: kept_def startup_def dest!: list_all2_lengthD)
  define k where "k = position ev"
  have other: "buttons c' ! j = buttons c ! j" if j: "j < 18" "j \<noteq> k" for j
  proof (cases "k < length (buttons c)")
    case False
    then show ?thesis unfolding c'_def k_def using ui_step_beyond[of ev c] by simp
  next
    case True
    let ?i = "action_id (action (buttons c ! k))"
    have k18: "k < 18" using True len by simp
    have "action (buttons c ! k) = action (buttons startup ! k)"
      using kept_nth(3)[OF kc, of k] k18 startup_length by simp
    moreover have "action_id (action (buttons startup ! k)) = id' (buttons startup ! k)"
      using arg_cong[OF startup_own_ids, of "\<lambda>xs. xs ! k"] k18 startup_length by simp
    ultimately have i: "?i = id' (buttons startup ! k)" by simp
    have idj: "id' (buttons c ! j) = id' (buttons startup ! j)"
      using kept_nth(2)[OF kc, of j] j(1) startup_length by simp
    have "id' (buttons startup ! j) \<noteq> id' (buttons startup ! k)"
      using startup_distinct j k18 startup_length
      by (simp add: distinct_conv_nth)
    with i idj have ne: "id' (buttons c ! j) \<noteq> ?i" by simp
    have "list_all2 (frame ?i) (buttons c) (buttons c')"
      using framed_buttons[OF ui_step_framed[of ev c en base b]] True
      unfolding c'_def k_def by simp
    then have "frame ?i (buttons c ! j) (buttons c' ! j)"
      using j(1) len by (simp add: list_all2_conv_all_nth)
    with ne show ?thesis by (simp add: frame_def)
  qed
  show ?thesis
    using kc' lens other unfolding c'_def cb k_def by simp
qed

theorem only_own_descriptor_mutated_witness:
  "kept startup (fst (ui_step sample_engine ''http://localhost:5215/api'' (Click 6)
                        (startup, new_page))) \<and>
   buttons (fst (ui_step sample_engine ''http://localhost:5215/api'' (Click 6)
                   (startup, new_page))) ! 7 = buttons startup ! 7"
proof -
  have a: "(startup, new_page) = ui_run sample_engine ''http://localhost:5215/api'' [] (startup, new_page)"
    by simp
  from only_own_descriptor_mutated[OF a, of "Click 6"]
  show ?thesis by simp
qed

lemma find_from_update:
  "(\<And>x. P (f x) = P x) \<Longrightarrow> find_from P (xs[j := f (xs ! j)]) n = find_from P xs n"
proof (induction xs arbitrary: j n)
  case Nil
  then show ?case by simp
next
  case (Cons x xs)
  then show ?case by (cases j) simp_all
qed

lemma findButton_setStatus: "findButton j (setStatus i st resp c) = findButton j c"
proof -
  have u: "find_from (\<lambda>a. id' a = j) (xs[k := (xs ! k)\<lparr>status := st, response := resp\<rparr>]) 0 =
           find_from (\<lambda>a. id' a = j) xs 0" for xs k
    by (rule find_from_update) simp
  show ?thesis
    by (cases "findButton i c")
       (auto simp: setStatus_def findButton_def u split: button_ref.splits option.splits)
qed

lemma the_button_setStatus:
  "the_button i (setStatus i st resp c) =
     map_option (\<lambda>a. a\<lparr>status := st, response := resp\<rparr>) (the_button i c)"
proof (cases "findButton i c")
  case None
  then show ?thesis by (simp add: the_button_def setStatus_def)
next
  case (Some ref)
  have same: "findButton i (setStatus i st resp c) = Some ref"
    using Some by (simp add: findButton_setStatus)
  show ?thesis
  proof (cases ref)
    case (ClientButton k)
    with Some have "find_from (\<lambda>a. id' a = i) (clientActions c) 0 = Some k"
      by (auto simp: findButton_def split: option.splits)
    from find_from_bound[OF this] have "k < length (clientActions c)" by simp
    then show ?thesis
      using Some ClientButton same
      by (simp add: the_button_def) (simp add: setStatus_def)
  next
    case (ServerButton k)
    with Some have "find_from (\<lambda>a. id' a = i) (serverActions c) 0 = Some k"
      by (auto simp: findButton_def split: option.splits)
    from find_from_bound[OF this] have "k < length (serverActions c)" by simp
    then show ?thesis
      using Some ServerButton same
      by (simp add: the_button_def) (simp add: setStatus_def)
  qed
qed

lemma the_button_found: "findButton i c \<noteq> None \<Longrightarrow> \<exists>a. the_button i c = Some a"
  by (auto simp: the_button_def split: option.splits button_ref.splits)

text \<open>
  C10. For each of the four client-side simulations, and every component in which the
  id is that of a button, \<open>runClient\<close> leaves the descriptor in status \<open>error\<close>. A
  simulation that returns gives the summary \<open>Exception thrown (check Jaeger)\<close> and
  \<open>runClient\<close> returns; one that throws throws an \<open>Error\<close>, the summary is its
  message, and \<open>runClient\<close> throws the same value again.
\<close>

theorem runClient_ends_in_error:
  assumes "findButton i c \<noteq> None"
  shows "\<exists>res c' b'.
           runClient en i (simulate en sim) (c, b) = (res, c', b') \<and>
           map_option status (the_button i c') = Some error \<and>
           (case fst (simulate en sim b) of
              Inr u \<Rightarrow>
                res = Inr () \<and>
                map_option response (the_button i c') =
                  Some (Some ''Exception thrown (check Jaeger)'')
            | Inl e \<Rightarrow>
                res = Inl e \<and>
                (\<exists>n m. e = JsError n m \<and>
                   map_option response (the_button i c') = Some (Some m)))"
proof -
  from the_button_found[OF assms] obtain a where a: "the_button i c = Some a" by blast
  show ?thesis
    by (cases sim)
       (simp_all add: runClient_def Let_def the_button_setStatus a)
qed

theorem runClient_ends_in_error_witness:
  "findButton ''json-parse'' startup \<noteq> None \<and>
   (\<exists>res c' b'.
      runClient sample_engine ''json-parse'' (simulate sample_engine simulateJsonParseError)
        (startup, new_page) = (res, c', b') \<and>
      map_option status (the_button ''json-parse'' c') = Some error \<and>
      res = Inl (JsError ''SyntaxError'' ''Expected property name or } in JSON at position 1'') \<and>
      map_option response (the_button ''json-parse'' c') =
        Some (Some ''Expected property name or } in JSON at position 1''))"
proof -
  have f: "findButton ''json-parse'' startup \<noteq> None"
    by (simp add: findButton_def startup_def)
  from runClient_ends_in_error[OF f, of sample_engine simulateJsonParseError new_page] f
  show ?thesis by (auto simp: sample_engine_def)
qed

section \<open>The listeners of the window\<close>

lemma instances_constructed: "instances (constructed n) = n"
  by (induction n) (simp_all add: new_page_def GlobalErrorHandler_def addEventListener_def Let_def)

lemma instance_of_constructed:
  "r \<in> set (listeners (constructed n)) \<Longrightarrow> instance_of (callback r) < n"
proof (induction n arbitrary: r)
  case 0
  then show ?case by (simp add: new_page_def)
next
  case (Suc n)
  then show ?case
    by (auto simp: GlobalErrorHandler_def addEventListener_def Let_def instances_constructed
        less_Suc_eq split: if_splits)
qed

lemma listeners_constructed_Suc:
  "listeners (constructed (Suc n)) =
     listeners (constructed n) @
       [\<lparr>event_type = ''unhandledrejection'', callback = rejection_listener n, capture = False\<rparr>,
        \<lparr>event_type = ''error'', callback = error_listener n, capture = True\<rparr>]"
proof -
  have 1: "\<lparr>event_type = ''unhandledrejection'', callback = rejection_listener n, capture = False\<rparr>
             \<notin> set (listeners (constructed n))"
    using instance_of_constructed[of _ n] by fastforce
  have 2: "\<lparr>event_type = ''error'', callback = error_listener n, capture = True\<rparr>
             \<notin> set (listeners (constructed n))"
    using instance_of_constructed[of _ n] by fastforce
  show ?thesis
    using 1 2
    by (simp add: GlobalErrorHandler_def addEventListener_def Let_def instances_constructed)
qed

lemma registered_constructed:
  "registered ''unhandledrejection'' (constructed n) = n \<and>
   registered ''error'' (constructed n) = n"
proof (induction n)
  case 0
  then show ?case by (simp add: registered_def new_page_def)
next
  case (Suc n)
  then show ?case
    unfolding registered_def listeners_constructed_Suc by simp
qed

text \<open>
  C4, as stated, fails: the constructor has no guard. Constructing the handler a
  second time adds a second listener of each kind to the window.
\<close>

theorem constructed_twice_registers_twice:
  "registered ''unhandledrejection'' (constructed 2) = 2 \<and>
   registered ''error'' (constructed 2) = 2"
  using registered_constructed[of 2] by simp

text \<open>
  C4, amended. Every construction of the handler adds one listener for unhandled
  rejections and one capturing listener for errors to the window: after \<open>n\<close>
  constructions on a new page there are \<open>n\<close> of each. They are attached exactly once
  when the handler is constructed exactly once.
\<close>

theorem one_registration_per_construction:
  "registered ''unhandledrejection'' (constructed n) = n \<and>
   registered ''error'' (constructed n) = n \<and>
   length (listeners (constructed n)) = 2 * n"
proof -
  have "length (listeners (constructed n)) = 2 * n"
    by (induction n) (simp_all add: listeners_constructed_Suc new_page_def del: constructed.simps(2))
  with registered_constructed[of n] show ?thesis by simp
qed

section \<open>One span for an occurrence\<close>

lemma listeners_constructed_once:
  "listeners (constructed (Suc 0)) =
     [\<lparr>event_type = ''unhandledrejection'', callback = rejection_listener 0, capture = False\<rparr>,
      \<lparr>event_type = ''error'', callback = error_listener 0, capture = True\<rparr>]"
  by (simp add: listeners_constructed_Suc new_page_def del: constructed.simps(2))

lemma on_unhandledrejection_effect:
  "listeners (on_unhandledrejection r b) = listeners b \<and>
   timers (on_unhandledrejection r b) = timers b \<and>
   map span_name (ended (on_unhandledrejection r b)) =
     map span_name (ended b) @ [''unhandled-promise-rejection'']"
  by (cases r) (simp_all add: on_unhandledrejection_def startSpan_def span_end_def Let_def)

lemma on_error_effect:
  "listeners (on_error t b) = listeners b \<and>
   timers (on_error t b) = timers b \<and>
   map span_name (ended (on_error t b)) =
     map span_name (ended b) @
       (case t of
          Element el \<Rightarrow>
            if tagName el = ''IMG'' \<or> tagName el = ''SCRIPT'' \<or> tagName el = ''LINK''
            then [''resource-load-failure''] else []
        | _ \<Rightarrow> [])"
  by (cases t) (simp_all add: startSpan_def span_end_def Let_def)

lemma handleError_effect:
  assumes "e \<noteq> JsUndefined" and "e \<noteq> JsNull"
  shows "fst (handleError en e b) = Inr () \<and>
         listeners (snd (handleError en e b)) = listeners b \<and>
         timers (snd (handleError en e b)) = timers b @ [e] \<and>
         map span_name (ended (snd (handleError en e b))) =
           map span_name (ended b) @ [''uncaught-error'']"
  using assms
  by (cases e) (simp_all add: handleError_def startSpan_def span_end_def Let_def)

lemma occur_effect:
  assumes "listeners b = listeners (constructed (Suc 0))"
    and "x \<noteq> UncaughtException JsUndefined" and "x \<noteq> UncaughtException JsNull"
  shows "listeners (occur en x b) = listeners (constructed (Suc 0)) \<and>
         map span_name (ended (occur en x b)) =
           map span_name (ended b) @ (if reported x then [report_name x] else []) \<and>
         timers (occur en x b) = (if x = TimerRuns then tl (timers b) else timers b @ rethrown x)"
proof (cases x)
  case (UnhandledRejection r)
  then show ?thesis
    using assms(1) on_unhandledrejection_effect[of r b]
    by (simp add: dispatchEvent_def listeners_constructed_once receives_def
        del: constructed.simps(2))
next
  case (ResourceLoadFailure el)
  then show ?thesis
    using assms(1) on_error_effect[of "Element el" b]
    by (simp add: dispatchEvent_def listeners_constructed_once receives_def
        del: constructed.simps(2))
next
  case (UncaughtException e)
  with assms(2,3) have "e \<noteq> JsUndefined" "e \<noteq> JsNull" by auto
  from handleError_effect[OF this, of en b] UncaughtException assms(1) show ?thesis by simp
next
  case TimerRuns
  then show ?thesis
    using assms(1)
    by (cases "timers b")
       (simp_all add: run_timer_def dispatchEvent_def listeners_constructed_once receives_def
          del: constructed.simps(2))
qed

lemma run_timer_ended:
  "listeners b = listeners (constructed (Suc 0)) \<Longrightarrow> ended (run_timer b) = ended b"
  by (cases "timers b")
     (simp_all add: run_timer_def dispatchEvent_def listeners_constructed_once receives_def
        del: constructed.simps(2))

lemma occur_all_names:
  assumes "listeners b = listeners (constructed (Suc 0))"
    and "UncaughtException JsUndefined \<notin> set xs" and "UncaughtException JsNull \<notin> set xs"
  shows "map span_name (ended (occur_all en xs b)) =
           map span_name (ended b) @ map report_name (filter reported xs)"
  using assms
proof (induction xs arbitrary: b)
  case Nil
  then show ?case by simp
next
  case (Cons x xs)
  from Cons.prems have x: "x \<noteq> UncaughtException JsUndefined" "x \<noteq> UncaughtException JsNull"
    by auto
  from occur_effect[OF Cons.prems(1) x, of en] have
    l: "listeners (occur en x b) = listeners (constructed (Suc 0))" and
    n: "map span_name (ended (occur en x b)) =
           map span_name (ended b) @ (if reported x then [report_name x] else [])" by auto
  from Cons.IH[OF l] Cons.prems(2,3) n show ?case by simp
qed

text \<open>
  C5, as stated, fails: the listener for errors reports the load failures of
  \<open>img\<close>, \<open>script\<close> and \<open>link\<close> elements only. The load failure of a video element
  reaches the listener and produces no span.
\<close>

theorem video_failure_is_dropped:
  "ended (occur sample_engine (ResourceLoadFailure video) (constructed 1)) = []"
  using listeners_constructed_once
  by (simp add: dispatchEvent_def receives_def video_def new_page_def
      GlobalErrorHandler_def addEventListener_def Let_def)

text \<open>
  C5, amended. On a page whose handler was constructed once, and for occurrences that
  come one after the other in any order and number: every unhandled rejection, every
  load failure of an \<open>img\<close>, \<open>script\<close> or \<open>link\<close> element and every uncaught
  exception whose value is neither \<open>undefined\<close> nor \<open>null\<close> ends exactly one span of
  the matching name, in the order of the occurrences; the load failures of other
  elements and the timers that run end none. \<open>handleError\<close> schedules one timer
  that throws the value again, and that timer, when it runs, ends no span.
\<close>

theorem one_span_per_reported_occurrence:
  assumes "UncaughtException JsUndefined \<notin> set xs" and "UncaughtException JsNull \<notin> set xs"
    and "e \<noteq> JsUndefined" and "e \<noteq> JsNull"
  shows "map span_name (ended (occur_all en xs (constructed 1))) =
           map report_name (filter reported xs) \<and>
         length (ended (occur_all en xs (constructed 1))) = length (filter reported xs) \<and>
         timers (snd (handleError en e b)) = timers b @ [e] \<and>
         ended (occur en TimerRuns (snd (handleError en e (constructed 1)))) =
           ended (snd (handleError en e (constructed 1)))"
proof -
  have e0: "ended (constructed (Suc 0)) = []"
    by (simp add: GlobalErrorHandler_def addEventListener_def Let_def new_page_def)
  have names: "map span_name (ended (occur_all en xs (constructed 1))) =
           map report_name (filter reported xs)"
    using occur_all_names[OF refl assms(1,2), of en] e0 by (simp del: constructed.simps(2))
  from arg_cong[OF names, of length]
  have len: "length (ended (occur_all en xs (constructed 1))) = length (filter reported xs)"
    by simp
  have t: "timers (snd (handleError en e b)) = timers b @ [e]"
    using handleError_effect[OF assms(3,4)] by simp
  have r: "ended (occur en TimerRuns (snd (handleError en e (constructed 1)))) =
           ended (snd (handleError en e (constructed 1)))"
    using handleError_effect[OF assms(3,4), of en "constructed (Suc 0)"]
      run_timer_ended[of "snd (handleError en e (constructed (Suc 0)))"]
    by (simp del: constructed.simps(2))
  from names len t r show ?thesis by simp
qed

theorem one_span_per_reported_occurrence_witness:
  "map span_name
     (ended (occur_all sample_engine
        [UnhandledRejection (JsError ''Error'' ''Simulated unhandled promise rejection''),
         ResourceLoadFailure \<lparr>tagName = ''IMG'',
           src = Some ''http://localhost:9999/nonexistent-image.png'', href = None\<rparr>,
         UncaughtException (JsError ''SyntaxError'' ''bad''),
         TimerRuns,
         ResourceLoadFailure video]
        (constructed 1))) =
     [''unhandled-promise-rejection'', ''resource-load-failure'', ''uncaught-error'']"
  using one_span_per_reported_occurrence[of
      "[UnhandledRejection (JsError ''Error'' ''Simulated unhandled promise rejection''),
         ResourceLoadFailure \<lparr>tagName = ''IMG'',
           src = Some ''http://localhost:9999/nonexistent-image.png'', href = None\<rparr>,
         UncaughtException (JsError ''SyntaxError'' ''bad''),
         TimerRuns,
         ResourceLoadFailure video]" "JsString ''x'' " sample_engine new_page]
  by (simp add: video_def)

text \<open>
  Outside the amended statement: \<open>handleError\<close> reads \<open>error.message\<close> without the
  guard its sibling listener has (\<open>error?.message\<close>), so for \<open>undefined\<close> it throws a
  \<open>TypeError\<close> after the span was started; the span is never ended and no timer is
  scheduled.
\<close>

lemma handleError_undefined:
  "handleError en JsUndefined b =
     (Inl (JsError ''TypeError'' (TypeError_reading en JsUndefined ''message'')),
      b\<lparr>unended := unended b @ [startSpan ''uncaught-error'']\<rparr>)"
  by (simp add: handleError_def)


end
